theory Spec2Isabelle
  imports Main "HOL-Library.Word"
begin

unbundle bit_operations_syntax

section \<open>Errors\<close>

text \<open>
  Every exception the modelled code can raise is a value.  A function that can raise
  returns \<open>error + 'a\<close>, with \<open>Inl\<close> carrying the exception.
\<close>

datatype error =
    Exception string
  | KeyError
  | IndexError
  | AttributeError
  | TypeError
  | AssertionError

section \<open>The operand stack (class Stack)\<close>

text \<open>
  \<open>Stack\<close> keeps a list \<open>_stack\<close> (top of the stack at the end of the list) and a
  dictionary \<open>_counts\<close> keyed by \<open>id(obj)\<close>.  The type parameter \<open>'a\<close> is the type of
  object identities: two stack entries are the same object exactly when they are equal.
\<close>

record 'a Stack =
  the_stack :: "'a list"
  the_counts :: "'a \<rightharpoonup> int"

definition Stack_init :: "'a Stack" where
  "Stack_init = \<lparr>the_stack = [], the_counts = Map.empty\<rparr>"

definition Stack_bool :: "'a Stack \<Rightarrow> bool" where
  "Stack_bool s = (the_stack s \<noteq> [])"

definition Stack_len :: "'a Stack \<Rightarrow> nat" where
  "Stack_len s = length (the_stack s)"

definition get_count :: "'a Stack \<Rightarrow> 'a \<Rightarrow> int" where
  "get_count s obj = (case the_counts s obj of None \<Rightarrow> 0 | Some v \<Rightarrow> v)"

definition Stack_contains :: "'a Stack \<Rightarrow> 'a \<Rightarrow> bool" where
  "Stack_contains s val = (get_count s val > 0)"

text \<open>\<open>del self._counts[id(obj)]\<close> raises KeyError when the key is absent.\<close>

definition set_count :: "'a Stack \<Rightarrow> 'a \<Rightarrow> int \<Rightarrow> error + 'a Stack" where
  "set_count s obj val =
     (if val \<noteq> 0 then Inr (s\<lparr>the_counts := (the_counts s)(obj \<mapsto> val)\<rparr>)
      else if the_counts s obj = None then Inl KeyError
      else Inr (s\<lparr>the_counts := (the_counts s)(obj := None)\<rparr>))"

text \<open>
  The methods mutate the stack and may raise after having mutated it, so each returns the
  stack it leaves behind together with the value or the exception.
\<close>

definition pop1 :: "'a Stack \<Rightarrow> 'a Stack \<times> (error + 'a)" where
  "pop1 s =
     (if the_stack s \<noteq> [] then
        (let val = last (the_stack s);
             s1 = s\<lparr>the_stack := butlast (the_stack s)\<rparr>
         in case set_count s1 val (get_count s1 val - 1) of
              Inl e \<Rightarrow> (s1, Inl e)
            | Inr s2 \<Rightarrow> (s2, Inr val))
      else (s, Inl (Exception ''Empty stack popped!'')))"

text \<open>\<open>[self.pop1() for i in range(count)]\<close>: the values in popping order.\<close>

fun pop1_times :: "nat \<Rightarrow> 'a Stack \<Rightarrow> 'a Stack \<times> (error + 'a list)" where
  "pop1_times 0 s = (s, Inr [])"
| "pop1_times (Suc n) s =
     (case pop1 s of
        (s1, Inl e) \<Rightarrow> (s1, Inl e)
      | (s1, Inr v) \<Rightarrow>
          (case pop1_times n s1 of
             (s2, Inl e) \<Rightarrow> (s2, Inl e)
           | (s2, Inr vs) \<Rightarrow> (s2, Inr (v # vs))))"

text \<open>\<open>pop()\<close> with \<open>count is None\<close>, and \<open>pop(count)\<close>; \<open>range\<close> of a negative count is empty.\<close>

definition pop :: "'a Stack \<Rightarrow> 'a Stack \<times> (error + 'a)" where
  "pop s = pop1 s"

definition pop_count :: "'a Stack \<Rightarrow> int \<Rightarrow> 'a Stack \<times> (error + 'a list)" where
  "pop_count s count =
     (case pop1_times (nat count) s of
        (s1, Inl e) \<Rightarrow> (s1, Inl e)
      | (s1, Inr vals) \<Rightarrow> (s1, Inr (rev vals)))"

fun push :: "'a Stack \<Rightarrow> 'a list \<Rightarrow> 'a Stack \<times> (error + unit)" where
  "push s [] = (s, Inr ())"
| "push s (val # args) =
     (case set_count s val (get_count s val + 1) of
        Inl e \<Rightarrow> (s, Inl e)
      | Inr s1 \<Rightarrow> push (s1\<lparr>the_stack := the_stack s1 @ [val]\<rparr>) args)"

text \<open>
  \<open>peek()\<close> is \<open>self._stack[-1]\<close>, which raises IndexError on an empty list;
  \<open>peek(count)\<close> is the slice \<open>self._stack[-count:]\<close>, which never raises: for
  \<open>count = 0\<close> it is the whole list, for a negative count it drops \<open>-count\<close> entries.
\<close>

definition peek :: "'a Stack \<Rightarrow> error + 'a" where
  "peek s = (if the_stack s = [] then Inl IndexError else Inr (last (the_stack s)))"

definition peek_count :: "'a Stack \<Rightarrow> int \<Rightarrow> 'a list" where
  "peek_count s count =
     (let xs = the_stack s; n = int (length xs)
      in if count > 0 then drop (nat (n - count)) xs
         else drop (nat (- count)) xs)"

text \<open>A sequence of calls on one stack, run until the first exception.\<close>

datatype 'a stack_op = Push "'a list" | Pop1 | Pop | PopCount int | Peek | PeekCount int

fun apply_stack_op :: "'a Stack \<Rightarrow> 'a stack_op \<Rightarrow> 'a Stack \<times> (error + unit)" where
  "apply_stack_op s (Push vals) = push s vals"
| "apply_stack_op s Pop1 = (case pop1 s of (s1, r) \<Rightarrow> (s1, map_sum id (\<lambda>_. ()) r))"
| "apply_stack_op s Pop = (case pop s of (s1, r) \<Rightarrow> (s1, map_sum id (\<lambda>_. ()) r))"
| "apply_stack_op s (PopCount n) =
     (case pop_count s n of (s1, r) \<Rightarrow> (s1, map_sum id (\<lambda>_. ()) r))"
| "apply_stack_op s Peek = (s, map_sum id (\<lambda>_. ()) (peek s))"
| "apply_stack_op s (PeekCount n) = (s, Inr ())"

fun apply_stack_ops :: "'a Stack \<Rightarrow> 'a stack_op list \<Rightarrow> 'a Stack" where
  "apply_stack_ops s [] = s"
| "apply_stack_ops s (x # xs) =
     (case apply_stack_op s x of
        (s1, Inl e) \<Rightarrow> s1
      | (s1, Inr u) \<Rightarrow> apply_stack_ops s1 xs)"

text \<open>The invariant: the recorded count of every object is its number of occurrences.\<close>

definition counts_match :: "'a Stack \<Rightarrow> bool" where
  "counts_match s = (\<forall>x. the_counts s x =
      (if count_list (the_stack s) x = 0 then None else Some (int (count_list (the_stack s) x))))"

section \<open>Expression nodes and their rendering\<close>

text \<open>
  The expression classes the claims are about: \<open>PyName\<close>, the unary operator classes
  made from the table \<open>unary_ops\<close>, the binary operator classes made from the table
  \<open>binary_ops\<close> (with \<open>PySubscript\<close>, which overrides \<open>wrap_right\<close>), \<open>PyCompare\<close>,
  \<open>PyBooleanAnd\<close>, \<open>PyBooleanOr\<close> and \<open>PyIfElse\<close>.

  \<open>PyCompare.complist\<close> is the flat list \<open>[e0, op1, e1, op2, e2, ...]\<close>.  It is only
  ever built as \<open>[left, op, right]\<close> (by \<open>COMPARE_OP\<close>) and lengthened by \<open>chain\<close>, so
  it is kept here as \<open>e0\<close>, \<open>op1\<close>, \<open>e1\<close> and the list of the later pairs
  \<open>(op, operand)\<close>; \<open>complist[1]\<close> is \<open>op1\<close>.

  A pattern such as \<open>'{} + {}'\<close> is kept as the texts before, between and after the
  holes, so that \<open>pattern.format(a, b)\<close> is a concatenation.
\<close>

datatype unary_cls = PyPositive | PyNegative | PyNot | PyInvert

datatype binary_cls =
    PyPower | PyMultiply | PyFloorDivide | PyTrueDivide | PyModulo | PyAdd | PySubtract
  | PySubscript | PyLeftShift | PyRightShift | PyAnd | PyXor | PyOr | PyMatrixMultiply

datatype expr =
    PyName string
  | PyUnaryOp unary_cls expr
  | PyBinaryOp binary_cls expr expr
  | PyCompare expr string expr "(string \<times> expr) list"
  | PyBooleanAnd expr expr bool
  | PyBooleanOr expr expr bool
  | PyIfElse expr expr expr

fun unary_pattern :: "unary_cls \<Rightarrow> string \<times> string" where
  "unary_pattern PyPositive = (''+'', '''')"
| "unary_pattern PyNegative = (''-'', '''')"
| "unary_pattern PyNot = (''not '', '''')"
| "unary_pattern PyInvert = (''~'', '''')"

fun unary_precedence :: "unary_cls \<Rightarrow> int" where
  "unary_precedence PyPositive = 13"
| "unary_precedence PyNegative = 13"
| "unary_precedence PyNot = 5"
| "unary_precedence PyInvert = 13"

fun binary_pattern :: "binary_cls \<Rightarrow> string \<times> string \<times> string" where
  "binary_pattern PyPower = ('''', ''**'', '''')"
| "binary_pattern PyMultiply = ('''', ''*'', '''')"
| "binary_pattern PyFloorDivide = ('''', ''//'', '''')"
| "binary_pattern PyTrueDivide = ('''', ''/'', '''')"
| "binary_pattern PyModulo = ('''', '' % '', '''')"
| "binary_pattern PyAdd = ('''', '' + '', '''')"
| "binary_pattern PySubtract = ('''', '' - '', '''')"
| "binary_pattern PySubscript = ('''', ''['', '']'')"
| "binary_pattern PyLeftShift = ('''', '' << '', '''')"
| "binary_pattern PyRightShift = ('''', '' >> '', '''')"
| "binary_pattern PyAnd = ('''', '' & '', '''')"
| "binary_pattern PyXor = ('''', '' ^ '', '''')"
| "binary_pattern PyOr = ('''', '' | '', '''')"
| "binary_pattern PyMatrixMultiply = ('''', '' @ '', '''')"

fun binary_precedence :: "binary_cls \<Rightarrow> int" where
  "binary_precedence PyPower = 14"
| "binary_precedence PyMultiply = 12"
| "binary_precedence PyFloorDivide = 12"
| "binary_precedence PyTrueDivide = 12"
| "binary_precedence PyModulo = 12"
| "binary_precedence PyAdd = 11"
| "binary_precedence PySubtract = 11"
| "binary_precedence PySubscript = 15"
| "binary_precedence PyLeftShift = 10"
| "binary_precedence PyRightShift = 10"
| "binary_precedence PyAnd = 9"
| "binary_precedence PyXor = 8"
| "binary_precedence PyOr = 7"
| "binary_precedence PyMatrixMultiply = 12"

fun precedence :: "expr \<Rightarrow> int" where
  "precedence (PyName n) = 100"
| "precedence (PyUnaryOp c x) = unary_precedence c"
| "precedence (PyBinaryOp c l r) = binary_precedence c"
| "precedence (PyCompare l oper r rest) = 6"
| "precedence (PyBooleanAnd l r ac) = 4"
| "precedence (PyBooleanOr l r ac) = 3"
| "precedence (PyIfElse c t f) = 2"

definition wrap :: "string \<Rightarrow> bool \<Rightarrow> string" where
  "wrap s condition = (if condition then ''('' @ s @ '')'' else s)"

definition format1 :: "string \<times> string \<Rightarrow> string \<Rightarrow> string" where
  "format1 ptn a = fst ptn @ a @ snd ptn"

definition format2 :: "string \<times> string \<times> string \<Rightarrow> string \<Rightarrow> string \<Rightarrow> string" where
  "format2 ptn a b = fst ptn @ a @ fst (snd ptn) @ b @ snd (snd ptn)"

fun join :: "string \<Rightarrow> string list \<Rightarrow> string" where
  "join sep [] = []"
| "join sep [x] = x"
| "join sep (x # y # ys) = x @ sep @ join sep (y # ys)"

fun str :: "expr \<Rightarrow> string" where
  "str (PyName n) = n"
| "str (PyUnaryOp c x) = format1 (unary_pattern c) (wrap (str x) (precedence x < unary_precedence c))"
| "str (PyBinaryOp c l r) =
     format2 (binary_pattern c)
       (wrap (str l) (precedence l < binary_precedence c))
       (if c = PySubscript then str r else wrap (str r) (precedence r \<le> binary_precedence c))"
| "str (PyCompare l oper r rest) =
     join '' '' (wrap (str l) (precedence l \<le> 6) # oper # wrap (str r) (precedence r \<le> 6)
        # concat (map (\<lambda>(o2, x). [o2, wrap (str x) (precedence x \<le> 6)]) rest))"
| "str (PyBooleanAnd l r ac) =
     format2 ('''', '' and '', '''') (wrap (str l) (precedence l < 4)) (wrap (str r) (precedence r \<le> 4))"
| "str (PyBooleanOr l r ac) =
     format2 ('''', '' or '', '''') (wrap (str l) (precedence l < 3)) (wrap (str r) (precedence r \<le> 3))"
| "str (PyIfElse c t f) =
     (let p = 2;
          cond_str = wrap (str c) (precedence c \<le> p);
          true_str = wrap (str t) (precedence t \<le> p);
          false_str = wrap (str f) (precedence f < p)
      in true_str @ '' if '' @ cond_str @ '' else '' @ false_str)"

text \<open>\<open>PyCompare.chain\<close>: \<open>PyCompare(self.complist + other.complist[1:])\<close>.  A value that is
  not a \<open>PyCompare\<close> has no \<open>chain\<close> method and no \<open>complist\<close> attribute.\<close>

fun chain :: "expr \<Rightarrow> expr \<Rightarrow> error + expr" where
  "chain (PyCompare l oper r rest) (PyCompare l2 oper2 r2 rest2) =
     Inr (PyCompare l oper r (rest @ (oper2, r2) # rest2))"
| "chain x y = Inl AttributeError"

text \<open>\<open>isinstance(c, PyCompare) and c.complist[1].startswith('is')\<close>.\<close>

fun is_compare_is :: "expr \<Rightarrow> bool" where
  "is_compare_is (PyCompare l oper r rest) = (take 2 oper = ''is'')"
| "is_compare_is x = False"

fun SPyNot :: "expr \<Rightarrow> expr" where
  "SPyNot (PyUnaryOp PyNot x) = x"
| "SPyNot (PyBooleanAnd l r ac) =
     (if ac then PyBooleanOr (SPyNot l) (SPyNot r) True
      else PyUnaryOp PyNot (PyBooleanAnd l r ac))"
| "SPyNot (PyBooleanOr l r ac) =
     (if ac then PyBooleanAnd (SPyNot l) (SPyNot r) True
      else PyUnaryOp PyNot (PyBooleanOr l r ac))"
| "SPyNot x = PyUnaryOp PyNot x"

text \<open>
  The constructors of \<open>PyBooleanAnd\<close> and \<open>PyBooleanOr\<close>: with
  \<open>allow_collision is None\<close> the flag is computed from the operands.
\<close>

fun is_PyNot :: "expr \<Rightarrow> bool" where
  "is_PyNot (PyUnaryOp PyNot x) = True"
| "is_PyNot x = False"

definition default_collision :: "expr \<Rightarrow> expr \<Rightarrow> bool" where
  "default_collision left right =
     (if is_PyNot left then \<not> is_compare_is right
      else if is_PyNot right then \<not> is_compare_is left
      else False)"

datatype bool_maker = MkPyBooleanAnd | MkPyBooleanOr

fun make_bool :: "bool_maker \<Rightarrow> expr \<Rightarrow> expr \<Rightarrow> bool option \<Rightarrow> expr" where
  "make_bool MkPyBooleanAnd left right None = PyBooleanAnd left right (default_collision left right)"
| "make_bool MkPyBooleanAnd left right (Some ac) = PyBooleanAnd left right ac"
| "make_bool MkPyBooleanOr left right None = PyBooleanOr left right (default_collision left right)"
| "make_bool MkPyBooleanOr left right (Some ac) = PyBooleanOr left right ac"

text \<open>\<open>isinstance(e, obj_maker)\<close> for \<open>obj_maker\<close> one of the two classes.\<close>

fun isinstance_maker :: "expr \<Rightarrow> bool_maker \<Rightarrow> bool" where
  "isinstance_maker (PyBooleanAnd l r ac) MkPyBooleanAnd = True"
| "isinstance_maker (PyBooleanOr l r ac) MkPyBooleanOr = True"
| "isinstance_maker e m = False"

fun left_of :: "expr \<Rightarrow> expr" where
  "left_of (PyBooleanAnd l r ac) = l"
| "left_of (PyBooleanOr l r ac) = l"
| "left_of (PyBinaryOp c l r) = l"
| "left_of e = e"

fun right_of :: "expr \<Rightarrow> expr" where
  "right_of (PyBooleanAnd l r ac) = r"
| "right_of (PyBooleanOr l r ac) = r"
| "right_of (PyBinaryOp c l r) = r"
| "right_of e = e"

section \<open>Statements, suites and indented output\<close>

text \<open>
  \<open>IndentString\<close>: \<open>indent + 1\<close> makes a new object one level deeper that shares the
  list \<open>lines\<close>, so what a nested display appends is seen by the caller.
\<close>

record IndentString =
  level :: nat
  step :: nat
  lines :: "string list"

definition IndentString_init :: IndentString where
  "IndentString_init = \<lparr>level = 0, step = 4, lines = []\<rparr>"

definition Indent_add :: "IndentString \<Rightarrow> nat \<Rightarrow> IndentString" where
  "Indent_add ind indent_increase = ind\<lparr>level := level ind + indent_increase\<rparr>"

definition indent :: "IndentString \<Rightarrow> string \<Rightarrow> IndentString" where
  "indent ind string =
     ind\<lparr>lines := lines ind @ [replicate (step ind * level ind) CHR '' '' @ string]\<rparr>"

definition IndentString_str :: "IndentString \<Rightarrow> string" where
  "IndentString_str ind = join [CHR 0x0A] (lines ind)"

text \<open>
  \<open>SimpleStatement\<close> and \<open>IfStatement\<close>; a \<open>Suite\<close> is its list \<open>statements\<close>, and the
  \<open>false_suite\<close> of an \<open>IfStatement\<close> may be \<open>None\<close>.
\<close>

datatype statement =
    SimpleStatement string
  | IfStatement expr "statement list" "statement list option"

type_synonym Suite = "statement list"

fun display :: "statement \<Rightarrow> IndentString \<Rightarrow> bool \<Rightarrow> IndentString"
  and Suite_display :: "Suite \<Rightarrow> IndentString \<Rightarrow> IndentString"
  and display_all :: "statement list \<Rightarrow> IndentString \<Rightarrow> IndentString"
where
  "display (SimpleStatement val) ind is_elif = indent ind val"
| "display (IfStatement cond true_suite false_suite) ind is_elif =
     (let ind1 = indent ind ((if is_elif then ''elif '' else ''if '') @ str cond @ '':'');
          ind2 = (Suite_display true_suite (Indent_add ind1 1))\<lparr>level := level ind\<rparr>
      in case false_suite of
           None \<Rightarrow> ind2
         | Some [] \<Rightarrow> ind2
         | Some [SimpleStatement val] \<Rightarrow>
             (Suite_display [SimpleStatement val] (Indent_add (indent ind2 ''else:'') 1))
               \<lparr>level := level ind\<rparr>
         | Some [IfStatement c t f] \<Rightarrow> display (IfStatement c t f) ind2 True
         | Some (s1 # s2 # ss) \<Rightarrow>
             (Suite_display (s1 # s2 # ss) (Indent_add (indent ind2 ''else:'') 1))
               \<lparr>level := level ind\<rparr>)"
| "Suite_display [] ind = indent ind ''pass''"
| "Suite_display (s # ss) ind = display_all (s # ss) ind"
| "display_all [] ind = ind"
| "display_all (s # ss) ind = display_all ss (display s ind False)"

definition Suite_str :: "Suite \<Rightarrow> string" where
  "Suite_str suite = IndentString_str (Suite_display suite IndentString_init)"

section \<open>Opcodes\<close>

text \<open>
  The module takes its opcode numbers from the interpreter's \<open>opcode\<close> and \<open>dis\<close> modules
  (\<open>opmap\<close>, \<open>HAVE_ARGUMENT\<close>, \<open>cmp_op\<close>, \<open>dis.hasjrel\<close>, \<open>dis.hasjabs\<close>).  These are the
  numbers of CPython 3.7, the interpreter the module is written for.
\<close>

definition POP_TOP :: nat where "POP_TOP = 1"
definition ROT_TWO :: nat where "ROT_TWO = 2"
definition ROT_THREE :: nat where "ROT_THREE = 3"
definition DUP_TOP :: nat where "DUP_TOP = 4"
definition DUP_TOP_TWO :: nat where "DUP_TOP_TWO = 5"
definition NOP :: nat where "NOP = 9"
definition PRINT_EXPR :: nat where "PRINT_EXPR = 70"
definition POP_BLOCK :: nat where "POP_BLOCK = 87"
definition RETURN_VALUE :: nat where "RETURN_VALUE = 83"
definition IMPORT_STAR :: nat where "IMPORT_STAR = 84"
definition END_FINALLY :: nat where "END_FINALLY = 88"
definition HAVE_ARGUMENT :: nat where "HAVE_ARGUMENT = 90"
definition FOR_ITER :: nat where "FOR_ITER = 93"
definition LOAD_NAME :: nat where "LOAD_NAME = 101"
definition COMPARE_OP :: nat where "COMPARE_OP = 107"
definition JUMP_FORWARD :: nat where "JUMP_FORWARD = 110"
definition JUMP_IF_FALSE_OR_POP :: nat where "JUMP_IF_FALSE_OR_POP = 111"
definition JUMP_IF_TRUE_OR_POP :: nat where "JUMP_IF_TRUE_OR_POP = 112"
definition JUMP_ABSOLUTE :: nat where "JUMP_ABSOLUTE = 113"
definition POP_JUMP_IF_FALSE :: nat where "POP_JUMP_IF_FALSE = 114"
definition POP_JUMP_IF_TRUE :: nat where "POP_JUMP_IF_TRUE = 115"
definition CONTINUE_LOOP :: nat where "CONTINUE_LOOP = 119"
definition SETUP_LOOP :: nat where "SETUP_LOOP = 120"
definition SETUP_EXCEPT :: nat where "SETUP_EXCEPT = 121"
definition SETUP_FINALLY :: nat where "SETUP_FINALLY = 122"
definition LOAD_FAST :: nat where "LOAD_FAST = 124"
definition RAISE_VARARGS :: nat where "RAISE_VARARGS = 130"
definition SETUP_WITH :: nat where "SETUP_WITH = 143"
definition EXTENDED_ARG :: nat where "EXTENDED_ARG = 144"
definition LIST_APPEND :: nat where "LIST_APPEND = 145"
definition SET_ADD :: nat where "SET_ADD = 146"
definition SETUP_ASYNC_WITH :: nat where "SETUP_ASYNC_WITH = 154"

lemmas opcode_defs =
  POP_TOP_def ROT_TWO_def ROT_THREE_def DUP_TOP_def NOP_def PRINT_EXPR_def POP_BLOCK_def RETURN_VALUE_def
  END_FINALLY_def HAVE_ARGUMENT_def FOR_ITER_def LOAD_NAME_def COMPARE_OP_def JUMP_FORWARD_def
  JUMP_IF_FALSE_OR_POP_def JUMP_IF_TRUE_OR_POP_def JUMP_ABSOLUTE_def POP_JUMP_IF_FALSE_def
  POP_JUMP_IF_TRUE_def CONTINUE_LOOP_def SETUP_LOOP_def SETUP_EXCEPT_def SETUP_FINALLY_def
  LOAD_FAST_def RAISE_VARARGS_def SETUP_WITH_def EXTENDED_ARG_def SETUP_ASYNC_WITH_def
  DUP_TOP_TWO_def IMPORT_STAR_def LIST_APPEND_def SET_ADD_def

definition pop_jump_if_opcodes :: "nat list" where
  "pop_jump_if_opcodes = [POP_JUMP_IF_TRUE, POP_JUMP_IF_FALSE]"

definition else_jump_opcodes :: "nat list" where
  "else_jump_opcodes =
     [JUMP_FORWARD, RETURN_VALUE, JUMP_ABSOLUTE, SETUP_LOOP, RAISE_VARARGS, POP_TOP]"

definition hasjrel :: "nat list" where
  "hasjrel = [FOR_ITER, JUMP_FORWARD, SETUP_LOOP, SETUP_EXCEPT, SETUP_FINALLY, SETUP_WITH,
              SETUP_ASYNC_WITH]"

definition hasjabs :: "nat list" where
  "hasjabs = [JUMP_IF_FALSE_OR_POP, JUMP_IF_TRUE_OR_POP, JUMP_ABSOLUTE, POP_JUMP_IF_FALSE,
              POP_JUMP_IF_TRUE, CONTINUE_LOOP]"

definition cmp_op :: "string list" where
  "cmp_op = [''<'', ''<='', ''=='', ''!='', ''>'', ''>='', ''in'', ''not in'', ''is'',
             ''is not'', ''exception match'', ''BAD'']"

section \<open>Decoding the instruction bytes (code\_walker)\<close>








section \<open>Code objects and addresses\<close>

text \<open>
  \<open>Code\<close> holds the decoded sequence \<open>instr_seq\<close> of entries \<open>(addr, (opcode, arg))\<close> and the
  tables the analysis fills in.  An \<open>Address\<close> is an index into \<open>instr_seq\<close> together with
  the entry read at construction; every \<open>Address\<close> of the model belongs to the \<open>Code\<close> that
  is passed along with it.
\<close>

record Address =
  index :: int
  addr :: nat
  opcode :: nat
  arg :: nat

record Code =
  instr_seq :: "(nat \<times> nat \<times> nat) list"
  varnames :: "expr list"
  names :: "expr list"
  linemap :: "nat list"
  start_chained_jumps :: "Address list"
  inner_chained_jumps :: "Address list"
  end_chained_jumps :: "Address list"

text \<open>
  \<open>Address.__init__\<close> reads \<open>code.instr_seq[instr_index]\<close>: a Python list read, which
  counts a negative index from the end and raises IndexError out of range.
\<close>

definition Address_init :: "Code \<Rightarrow> int \<Rightarrow> error + Address" where
  "Address_init code instr_index =
     (let n = int (length (instr_seq code));
          j = (if instr_index < 0 then n + instr_index else instr_index)
      in if 0 \<le> j \<and> j < n then
           (case instr_seq code ! nat j of
              (a, (op, ar)) \<Rightarrow>
                Inr \<lparr>index = instr_index, addr = a, opcode = op, arg = ar\<rparr>)
         else Inl IndexError)"

text \<open>\<open>Code.__getitem__\<close>; falling off the end of the method returns \<open>None\<close>.\<close>

definition Code_getitem :: "Code \<Rightarrow> int \<Rightarrow> error + Address option" where
  "Code_getitem code instr_index =
     (if 0 \<le> instr_index \<and> instr_index < int (length (instr_seq code))
      then map_sum id Some (Address_init code instr_index)
      else Inr None)"

text \<open>\<open>Address.__getitem__\<close>: \<open>self.code[self.index + index]\<close>.\<close>

definition Address_getitem :: "Code \<Rightarrow> Address \<Rightarrow> int \<Rightarrow> error + Address option" where
  "Address_getitem code a delta = Code_getitem code (index a + delta)"

text \<open>
  \<open>Code.__getitem__\<close> never raises (see \<open>Code_getitem_total\<close> below), so the definitions
  that follow read its result directly.
\<close>

definition getitem :: "Code \<Rightarrow> int \<Rightarrow> Address option" where
  "getitem code instr_index =
     (case Code_getitem code instr_index of Inr r \<Rightarrow> r | Inl e \<Rightarrow> None)"

text \<open>\<open>Code.__iter__\<close>: \<open>Address(self, i)\<close> for \<open>i\<close> in \<open>range(len(self.instr_seq))\<close>.\<close>

definition Code_iter :: "Code \<Rightarrow> Address list" where
  "Code_iter code =
     map (\<lambda>i. case instr_seq code ! i of
                 (a, (op, ar)) \<Rightarrow> \<lparr>index = int i, addr = a, opcode = op, arg = ar\<rparr>)
         [0..<length (instr_seq code)]"

text \<open>
  \<open>instr_map = {addr: i for i, (addr, _) in enumerate(instr_seq)}\<close>: for an offset that
  occurs twice the later index wins.  \<open>Code.address(addr)\<close> is
  \<open>self[self.instr_map[addr]]\<close>, a KeyError when the offset starts no instruction.
\<close>

definition instr_map :: "Code \<Rightarrow> nat \<rightharpoonup> nat" where
  "instr_map code =
     map_of (rev (zip (map fst (instr_seq code)) [0..<length (instr_seq code)]))"

definition Code_address :: "Code \<Rightarrow> nat \<Rightarrow> error + Address option" where
  "Code_address code a =
     (case instr_map code a of
        None \<Rightarrow> Inl KeyError
      | Some i \<Rightarrow> Inr (getitem code (int i)))"

section \<open>The else-jump pass (Code.find\_else)\<close>

text \<open>
  The dictionary \<open>jumps\<close> is keyed by \<open>Address\<close> objects, which hash and compare by their
  index within the code object; it is an association list keyed by the index, updated in
  place as a Python dictionary is.  One iteration of the loop body:
\<close>

definition dict_set :: "'k \<Rightarrow> 'v \<Rightarrow> ('k \<times> 'v) list \<Rightarrow> ('k \<times> 'v) list" where
  "dict_set k v d = (if k \<in> fst ` set d then map (\<lambda>(k', v'). if k' = k then (k, v) else (k', v')) d
                     else d @ [(k, v)])"

definition copy_else_jump ::
  "(int \<times> Address) list \<Rightarrow> Address \<Rightarrow> Address \<Rightarrow> (int \<times> Address) list" where
  "copy_else_jump jumps a jump_addr =
     (case map_of jumps (index jump_addr) of
        Some v \<Rightarrow> dict_set (index a) v jumps
      | None \<Rightarrow> jumps)"

definition find_else_step ::
  "Code \<Rightarrow> (int \<times> Address) list \<Rightarrow> Address \<Rightarrow> error + (int \<times> Address) list" where
  "find_else_step code jumps a =
     (if opcode a \<in> set pop_jump_if_opcodes then
        (case Code_address code (arg a) of
           Inl e \<Rightarrow> Inl e
         | Inr None \<Rightarrow> Inl TypeError
         | Inr (Some jump_addr) \<Rightarrow>
             (case getitem code (index jump_addr + (- 1)) of
                None \<Rightarrow> Inl AttributeError
              | Some prev \<Rightarrow>
                  if opcode prev \<in> set else_jump_opcodes \<or> opcode jump_addr = FOR_ITER
                  then Inr (dict_set (index jump_addr) a jumps)
                  else Inr jumps))
      else if opcode a = JUMP_ABSOLUTE then
        (case Code_address code (arg a) of
           Inl e \<Rightarrow> Inl e
         | Inr None \<Rightarrow> Inr jumps
         | Inr (Some jump_addr) \<Rightarrow> Inr (copy_else_jump jumps a jump_addr))
      else if opcode a = JUMP_FORWARD then
        (case getitem code (index a + 1) of
           None \<Rightarrow> Inl TypeError
         | Some nxt \<Rightarrow>
             (case Code_address code (addr nxt + arg a) of
                Inl e \<Rightarrow> Inl e
              | Inr None \<Rightarrow> Inr jumps
              | Inr (Some jump_addr) \<Rightarrow> Inr (copy_else_jump jumps a jump_addr)))
      else Inr jumps)"

fun find_else_loop ::
  "Code \<Rightarrow> Address list \<Rightarrow> (int \<times> Address) list \<Rightarrow> error + (int \<times> Address) list" where
  "find_else_loop code [] jumps = Inr jumps"
| "find_else_loop code (a # as) jumps =
     (case find_else_step code jumps a of
        Inl e \<Rightarrow> Inl e
      | Inr jumps1 \<Rightarrow> find_else_loop code as jumps1)"

text \<open>\<open>find_else\<close> returns the value it stores in \<open>self.else_jumps\<close>.\<close>

definition find_else :: "Code \<Rightarrow> error + Address set" where
  "find_else code =
     (case find_else_loop code (Code_iter code) [] of
        Inl e \<Rightarrow> Inl e
      | Inr jumps \<Rightarrow> Inr (set (map snd jumps)))"

text \<open>
  What the pass tests about a branch: its target exists, has a predecessor, and either
  the predecessor's opcode is in \<open>else_jump_opcodes\<close> or the target is a \<open>FOR_ITER\<close>.
\<close>

definition lands_on_else :: "Code \<Rightarrow> Address \<Rightarrow> Address \<Rightarrow> bool" where
  "lands_on_else code a jump_addr =
     (Code_address code (arg a) = Inr (Some jump_addr) \<and>
      (case getitem code (index jump_addr + (- 1)) of
         None \<Rightarrow> False
       | Some prev \<Rightarrow> opcode prev \<in> set else_jump_opcodes \<or> opcode jump_addr = FOR_ITER))"

text \<open>A code object with the given decoded sequence and empty tables, for examples.\<close>

definition mk_code :: "(nat \<times> nat \<times> nat) list \<Rightarrow> Code" where
  "mk_code instrs = \<lparr>instr_seq = instrs, varnames = [], names = [], linemap = [],
      start_chained_jumps = [], inner_chained_jumps = [], end_chained_jumps = []\<rparr>"

text \<open>A member of the else-jump set, as the pass selects it.\<close>

definition else_branch :: "Code \<Rightarrow> Address \<Rightarrow> bool" where
  "else_branch code v =
     (v \<in> set (Code_iter code) \<and> opcode v \<in> set pop_jump_if_opcodes \<and>
      (\<exists>t. lands_on_else code v t))"

text \<open>The instruction \<open>a\<close> assigns the table entry of the landing index \<open>k\<close>.\<close>

definition writes_key :: "Code \<Rightarrow> Address \<Rightarrow> int \<Rightarrow> bool" where
  "writes_key code a k =
     ((opcode a \<in> set pop_jump_if_opcodes \<and>
        (\<exists>t. Code_address code (arg a) = Inr (Some t) \<and> index t = k)) \<or>
      ((opcode a = JUMP_ABSOLUTE \<or> opcode a = JUMP_FORWARD) \<and> index a = k))"

section \<open>The symbolic executor (SuiteDecompiler)\<close>

text \<open>
  What a call of the executor can end in: a value, an exception that nothing catches
  (\<open>run\<close> and the handlers have no \<open>try\<close>), the end of the fuel that bounds the model's
  recursion, or a path of the source that is not embedded here (\<open>Unmodelled\<close>).  No
  theorem below rests on an \<open>Unmodelled\<close> outcome.
\<close>

datatype 'a result = Ok 'a | Raise error | Timeout | Unmodelled

definition bind :: "'a result \<Rightarrow> ('a \<Rightarrow> 'b result) \<Rightarrow> 'b result" where
  "bind m f = (case m of Ok x \<Rightarrow> f x | Raise e \<Rightarrow> Raise e | Timeout \<Rightarrow> Timeout
               | Unmodelled \<Rightarrow> Unmodelled)"

definition lift :: "error + 'a \<Rightarrow> 'a result" where
  "lift r = (case r of Inl e \<Rightarrow> Raise e | Inr x \<Rightarrow> Ok x)"

text \<open>
  The comparisons of \<open>Address\<close>: \<open>__lt__\<close> is true against \<open>None\<close>; \<open>==\<close> between two
  values that may be \<open>None\<close> is true for two \<open>None\<close> and for two addresses of the same
  index.  \<open>a in xs\<close> for a list of addresses uses \<open>==\<close>.
\<close>

definition Address_lt :: "Address \<Rightarrow> Address option \<Rightarrow> bool" where
  "Address_lt a other = (case other of None \<Rightarrow> True | Some b \<Rightarrow> index a < index b)"

fun Address_eq :: "Address option \<Rightarrow> Address option \<Rightarrow> bool" where
  "Address_eq None None = True"
| "Address_eq (Some a) (Some b) = (index a = index b)"
| "Address_eq x y = False"

definition Address_in :: "Address \<Rightarrow> Address list \<Rightarrow> bool" where
  "Address_in a xs = (\<exists>b \<in> set xs. index a = index b)"

text \<open>
  \<open>Address.jump\<close>: \<open>self[1] + self.arg\<close> for a relative jump (\<open>None + int\<close> is a TypeError,
  \<open>Address.__add__\<close> is \<open>code.address(self.addr + delta)\<close>), \<open>code.address(self.arg)\<close> for
  an absolute one, \<open>None\<close> otherwise.
\<close>

definition Address_jump :: "Code \<Rightarrow> Address \<Rightarrow> Address option result" where
  "Address_jump code a =
     (if opcode a \<in> set hasjrel then
        (case getitem code (index a + 1) of
           None \<Rightarrow> Raise TypeError
         | Some nxt \<Rightarrow> lift (Code_address code (addr nxt + arg a)))
      else if opcode a \<in> set hasjabs then lift (Code_address code (arg a))
      else Ok None)"

text \<open>\<open>a[k].opcode\<close> and \<open>a[k].arg\<close>: an AttributeError when \<open>a[k]\<close> is \<open>None\<close>.\<close>

definition opcode_at :: "Code \<Rightarrow> Address \<Rightarrow> int \<Rightarrow> nat result" where
  "opcode_at code a k =
     (case getitem code (index a + k) of None \<Rightarrow> Raise AttributeError | Some x \<Rightarrow> Ok (opcode x))"

definition arg_at :: "Code \<Rightarrow> Address \<Rightarrow> int \<Rightarrow> nat result" where
  "arg_at code a k =
     (case getitem code (index a + k) of None \<Rightarrow> Raise AttributeError | Some x \<Rightarrow> Ok (arg x))"

text \<open>
  The operand stack of the executor.  The handlers embedded here use \<open>push\<close>, \<open>pop\<close>,
  \<open>peek\<close> and \<open>len\<close> only, never the identity counts, so the stack is the list \<open>_stack\<close>
  (top at the end); popping an empty stack raises as \<open>Stack.pop1\<close> does.
\<close>

definition st_pop :: "expr list \<Rightarrow> (expr \<times> expr list) result" where
  "st_pop st = (if st \<noteq> [] then Ok (last st, butlast st)
                else Raise (Exception ''Empty stack popped!''))"

text \<open>\<open>pop(count)\<close>: the popped values, deepest first.\<close>

fun st_pop_count :: "nat \<Rightarrow> expr list \<Rightarrow> (expr list \<times> expr list) result" where
  "st_pop_count 0 st = Ok ([], st)"
| "st_pop_count (Suc n) st =
     bind (st_pop st) (\<lambda>(v, st1).
     bind (st_pop_count n st1) (\<lambda>(vs, st2). Ok (vs @ [v], st2)))"

definition st_peek :: "expr list \<Rightarrow> expr result" where
  "st_peek st = (if st = [] then Raise IndexError else Ok (last st))"

text \<open>A Python list read with a non-negative index.\<close>

definition list_get :: "'a list \<Rightarrow> nat \<Rightarrow> 'a result" where
  "list_get xs i = (if i < length xs then Ok (xs ! i) else Raise IndexError)"

text \<open>
  The state of one \<open>SuiteDecompiler\<close>.  The operand stack is an object that a nested
  decompiler may share with its creator: a nested run is given the stack and hands it
  back.  \<open>assignment_chain\<close> is used by the store handlers only, which are not embedded.
\<close>

type_synonym popjump = "bool \<times> Address option \<times> expr \<times> Address"

record Decompiler =
  start_addr :: Address
  end_addr :: "Address option"
  stack :: "expr list"
  suite :: Suite
  popjump_stack :: "popjump list"
  scan_for_else :: bool
  find_end_finally :: bool
  expression_in_result :: bool
  end_block :: "Address option"

text \<open>
  \<open>SuiteDecompiler.__init__\<close>: \<open>start_addr.code\<close> is an AttributeError for \<open>None\<close>;
  \<open>end_block\<close> is \<open>end_addr[-1]\<close>, or the last instruction when \<open>end_addr\<close> is \<open>None\<close>.
\<close>

definition SuiteDecompiler_init ::
  "Code \<Rightarrow> Address option \<Rightarrow> Address option \<Rightarrow> expr list \<Rightarrow> Decompiler result" where
  "SuiteDecompiler_init code start endp st =
     (case start of
        None \<Rightarrow> Raise AttributeError
      | Some sa \<Rightarrow>
          bind (case endp of
                  Some e \<Rightarrow> Ok (getitem code (index e + (- 1)))
                | None \<Rightarrow> bind (lift (Address_init code (int (length (instr_seq code)) - 1)))
                            (\<lambda>a. Ok (Some a)))
            (\<lambda>eb. Ok \<lparr>start_addr = sa, end_addr = endp, stack = st, suite = [],
                       popjump_stack = [], scan_for_else = False, find_end_finally = False,
                       expression_in_result = False, end_block = eb\<rparr>))"

subsection \<open>The pending-branch stack (push\_popjump, pop\_popjump)\<close>

text \<open>
  The two decision tables of \<open>push_popjump\<close>: for the popped entry \<open>(truthiness, cond)\<close>
  and the new branch \<open>(jtruthiness, jcond)\<close> they give \<open>obj_maker\<close>, the possibly negated
  \<open>cond\<close> and \<open>jcond\<close>, the new \<open>jtruthiness\<close> and \<open>allow_collision\<close>.  The first is the
  case \<open>jaddr == addr\<close>, the second the case \<open>addr == next_addr\<close>; \<open>is_or_pop\<close> is
  \<open>original_jaddr.opcode == JUMP_IF_TRUE_OR_POP\<close>.
\<close>

definition merge_same_target ::
  "bool \<Rightarrow> expr \<Rightarrow> bool \<Rightarrow> expr \<Rightarrow> bool_maker \<times> expr \<times> expr \<times> bool \<times> bool" where
  "merge_same_target truthiness cond jtruthiness jcond =
     (if truthiness \<and> jtruthiness then (MkPyBooleanOr, cond, jcond, jtruthiness, False)
      else if truthiness \<and> \<not> jtruthiness then
        (if is_compare_is cond then (MkPyBooleanOr, cond, SPyNot jcond, True, False)
         else (MkPyBooleanAnd, SPyNot cond, jcond, jtruthiness, True))
      else if \<not> truthiness \<and> jtruthiness then
        (if is_compare_is jcond then (MkPyBooleanOr, SPyNot cond, jcond, jtruthiness, False)
         else (MkPyBooleanAnd, cond, SPyNot jcond, False, True))
      else (MkPyBooleanAnd, cond, jcond, jtruthiness, False))"

definition merge_fallthrough ::
  "bool \<Rightarrow> bool \<Rightarrow> expr \<Rightarrow> bool \<Rightarrow> expr \<Rightarrow> bool_maker \<times> expr \<times> expr \<times> bool \<times> bool" where
  "merge_fallthrough is_or_pop truthiness cond jtruthiness jcond =
     (if truthiness \<and> jtruthiness then
        (if is_compare_is jcond \<or> is_or_pop
         then (MkPyBooleanAnd, SPyNot cond, jcond, jtruthiness, False)
         else (MkPyBooleanOr, cond, SPyNot jcond, False, True))
      else if truthiness \<and> \<not> jtruthiness then (MkPyBooleanOr, cond, jcond, jtruthiness, False)
      else if \<not> truthiness \<and> jtruthiness then (MkPyBooleanAnd, cond, jcond, jtruthiness, False)
      else
        (if is_compare_is cond then (MkPyBooleanAnd, cond, SPyNot jcond, True, False)
         else (MkPyBooleanOr, SPyNot cond, jcond, jtruthiness, True)))"

text \<open>
  The end of the loop body: a \<open>jcond\<close> that is already an \<open>obj_maker\<close> node is taken apart
  and rebuilt to the left (``use associativity of 'and' and 'or' to minimise the number
  of parentheses''), anything else becomes the right operand.
\<close>

definition merge_clause :: "bool_maker \<Rightarrow> expr \<Rightarrow> expr \<Rightarrow> bool \<Rightarrow> expr" where
  "merge_clause obj_maker cond jcond allow_collision =
     (if isinstance_maker jcond obj_maker
      then make_bool obj_maker
             (make_bool obj_maker cond (left_of jcond) (Some allow_collision))
             (right_of jcond) (Some allow_collision)
      else make_bool obj_maker cond jcond (Some allow_collision))"

text \<open>
  The loop \<open>while stack\<close> of \<open>push_popjump\<close>, on the stack with its top first; it
  returns what is left of the stack and the final \<open>jtruthiness\<close> and \<open>jcond\<close>.
\<close>

fun popjump_loop ::
  "bool \<Rightarrow> Address option \<Rightarrow> Address option \<Rightarrow> popjump list \<Rightarrow> bool \<Rightarrow> expr
     \<Rightarrow> popjump list \<times> bool \<times> expr" where
  "popjump_loop is_or_pop next_addr jaddr [] jtruthiness jcond = ([], jtruthiness, jcond)"
| "popjump_loop is_or_pop next_addr jaddr ((truthiness, addr1, cond, original_addr) # rest)
       jtruthiness jcond =
     (if Address_eq jaddr addr1 then
        (case merge_same_target truthiness cond jtruthiness jcond of
           (obj_maker, cond1, jcond1, jtruthiness1, allow_collision) \<Rightarrow>
             popjump_loop is_or_pop next_addr jaddr rest jtruthiness1
               (merge_clause obj_maker cond1 jcond1 allow_collision))
      else if Address_eq addr1 next_addr then
        (case merge_fallthrough is_or_pop truthiness cond jtruthiness jcond of
           (obj_maker, cond1, jcond1, jtruthiness1, allow_collision) \<Rightarrow>
             popjump_loop is_or_pop next_addr jaddr rest jtruthiness1
               (merge_clause obj_maker cond1 jcond1 allow_collision))
      else ((truthiness, addr1, cond, original_addr) # rest, jtruthiness, jcond))"

text \<open>\<open>push_popjump\<close> on the list \<open>popjump_stack\<close> (top at the end).\<close>

definition push_popjump ::
  "Code \<Rightarrow> popjump list \<Rightarrow> bool \<Rightarrow> Address option \<Rightarrow> expr \<Rightarrow> Address \<Rightarrow> popjump list" where
  "push_popjump code pstack jtruthiness jaddr jcond original_jaddr =
     (let next_addr =
            (if Address_in original_jaddr (end_chained_jumps code) then
               (if jtruthiness then getitem code (index original_jaddr + 3)
                else getitem code (index original_jaddr + 4))
             else getitem code (index original_jaddr + 1));
          is_or_pop = (opcode original_jaddr = JUMP_IF_TRUE_OR_POP)
      in case popjump_loop is_or_pop next_addr jaddr (rev pstack) jtruthiness jcond of
           (rest, jtruthiness1, jcond1) \<Rightarrow>
             rev rest @ [(if is_or_pop then \<not> jtruthiness1 else jtruthiness1,
                          jaddr, jcond1, original_jaddr)])"

definition pop_popjump :: "popjump list \<Rightarrow> (expr \<times> popjump list) result" where
  "pop_popjump pstack =
     (if pstack = [] then Raise (Exception ''Attempted to pop an empty popjump stack.'')
      else (case last pstack of
              (truthiness, addr1, cond, original_addr) \<Rightarrow>
                Ok (if truthiness then SPyNot cond else cond, butlast pstack)))"

subsection \<open>The execution loop (run)\<close>

text \<open>
  What a handler returns: the marker \<open>END_NOW\<close>, or an address, or \<open>None\<close>.  \<open>run\<close> looks
  the handler up by the opcode's name; the table of handlers is the parameter \<open>method\<close>,
  and a missing handler is the table raising AttributeError.  The loop may run forever,
  so it is given fuel: one unit for each iteration.
\<close>

datatype ret = END_NOW | Next "Address option"

type_synonym handler = "Decompiler \<Rightarrow> Address \<Rightarrow> (Decompiler \<times> ret) result"

fun run ::
  "Code \<Rightarrow> handler \<Rightarrow> nat \<Rightarrow> Decompiler \<Rightarrow> Address option
     \<Rightarrow> (Decompiler \<times> Address option) result" where
  "run code method 0 d cursor = Timeout"
| "run code method (Suc n) d None = Ok (d, None)"
| "run code method (Suc n) d (Some a) =
     (if \<not> Address_lt a (end_addr d) then Ok (d, Some a)
      else if scan_for_else d \<and> opcode a = JUMP_ABSOLUTE \<and> addr a \<notin> set (linemap code)
        then Ok (d, Some a)
      else if scan_for_else d \<and> opcode a = JUMP_FORWARD then Ok (d, Some a)
      else if \<not> scan_for_else d \<and> find_end_finally d \<and> opcode a = END_FINALLY
        then Ok (d, Some a)
      else
        (case method d a of
           Raise e \<Rightarrow> Raise e
         | Timeout \<Rightarrow> Timeout
         | Unmodelled \<Rightarrow> Unmodelled
         | Ok (d1, END_NOW) \<Rightarrow> Ok (d1, end_addr d1)
         | Ok (d1, Next r) \<Rightarrow>
             (let new_addr = (case r of None \<Rightarrow> getitem code (index a + 1) | Some x \<Rightarrow> Some x)
              in if (scan_for_else d1 \<or> find_end_finally d1) \<and> opcode a = RETURN_VALUE
                 then Ok (d1, Some a)
                 else if expression_in_result d1 then
                   (case new_addr of
                      None \<Rightarrow> Raise AttributeError
                    | Some na \<Rightarrow>
                        if opcode na = RETURN_VALUE then Ok (d1, new_addr)
                        else run code method n d1 new_addr)
                 else run code method n d1 new_addr)))"

text \<open>
  The tests that end the loop before the handler of the instruction at the cursor is
  called: the condition of the \<open>while\<close> and the three \<open>break\<close>s above the dispatch.
\<close>

definition leaves_loop :: "Code \<Rightarrow> Decompiler \<Rightarrow> Address \<Rightarrow> bool" where
  "leaves_loop code d a =
     (\<not> Address_lt a (end_addr d)
      \<or> (scan_for_else d \<and> opcode a = JUMP_ABSOLUTE \<and> addr a \<notin> set (linemap code))
      \<or> (scan_for_else d \<and> opcode a = JUMP_FORWARD)
      \<or> (\<not> scan_for_else d \<and> find_end_finally d \<and> opcode a = END_FINALLY))"

text \<open>\<open>d.run()\<close> for a decompiler \<open>d\<close>: the loop from \<open>d.start_addr\<close>.\<close>

definition run_from_start ::
  "Code \<Rightarrow> handler \<Rightarrow> nat \<Rightarrow> Decompiler \<Rightarrow> (Decompiler \<times> Address option) result" where
  "run_from_start code method n d = run code method n d (Some (start_addr d))"

subsection \<open>Opcode handlers\<close>

text \<open>\<open>self.write(line)\<close> without arguments appends \<open>SimpleStatement(line)\<close> to the suite.\<close>

definition Decompiler_write :: "Decompiler \<Rightarrow> string \<Rightarrow> Decompiler" where
  "Decompiler_write d line = d\<lparr>suite := suite d @ [SimpleStatement line]\<rparr>"

definition POP_TOP_error :: string where
  "POP_TOP_error = replicate 3 (CHR 0x22)
       @ ''unpyc3: decompilation error POP_TOP while empty stack'' @ replicate 3 (CHR 0x22)"

text \<open>
  \<open>POP_TOP\<close>: the guard on the empty stack; otherwise \<open>self.stack.pop().on_pop(self)\<close>,
  and \<open>PyExpr.on_pop\<close> is \<open>dec.write(str(self))\<close>.
\<close>

definition h_POP_TOP :: handler where
  "h_POP_TOP d a =
     (if length (stack d) \<le> 0
      then Ok (d\<lparr>suite := suite d @ [SimpleStatement POP_TOP_error]\<rparr>, Next None)
      else bind (st_pop (stack d)) (\<lambda>(v, st). Ok (Decompiler_write (d\<lparr>stack := st\<rparr>) (str v), Next None)))"

text \<open>\<open>PRINT_EXPR\<close>: \<open>expr = self.stack.pop(); self.write("{}", expr)\<close>.\<close>

definition h_PRINT_EXPR :: handler where
  "h_PRINT_EXPR d a =
     bind (st_pop (stack d)) (\<lambda>(v, st). Ok (Decompiler_write (d\<lparr>stack := st\<rparr>) (str v), Next None))"

text \<open>\<open>NOP\<close> and \<open>POP_BLOCK\<close> do nothing.\<close>

definition h_NOP :: handler where
  "h_NOP d a = Ok (d, Next None)"

text \<open>\<open>DUP_TOP\<close>: \<open>self.stack.push(self.stack.peek())\<close>.\<close>

definition h_DUP_TOP :: handler where
  "h_DUP_TOP d a = bind (st_peek (stack d)) (\<lambda>v. Ok (d\<lparr>stack := stack d @ [v]\<rparr>, Next None))"

text \<open>
  \<open>DUP_TOP_TWO\<close>: \<open>self.stack.push(*self.stack.peek(2))\<close>.  \<open>peek(2)\<close> is the slice
  \<open>_stack[-2:]\<close>: the two top values, or the whole stack when it holds fewer.
\<close>

definition h_DUP_TOP_TWO :: handler where
  "h_DUP_TOP_TWO d a =
     Ok (d\<lparr>stack := stack d @ drop (length (stack d) - 2) (stack d)\<rparr>, Next None)"

text \<open>
  \<open>ROT_THREE\<close>: inside a chained comparison (after \<open>DUP_TOP\<close>, before \<open>COMPARE_OP\<close> and a
  branch) it rotates the three top values.  Elsewhere the source first looks for an
  unpacking assignment; that search is not embedded.
\<close>

definition h_ROT_THREE :: "Code \<Rightarrow> handler" where
  "h_ROT_THREE code d a =
     bind (opcode_at code a (- 1)) (\<lambda>op1.
     bind (if op1 = DUP_TOP then opcode_at code a 1 else Ok 0) (\<lambda>op2.
     bind (if op1 = DUP_TOP \<and> op2 = COMPARE_OP then opcode_at code a 2 else Ok 0) (\<lambda>op3.
       if op1 = DUP_TOP \<and> op2 = COMPARE_OP
          \<and> op3 \<in> {JUMP_IF_FALSE_OR_POP, POP_JUMP_IF_FALSE, POP_JUMP_IF_TRUE}
       then bind (st_pop_count 3 (stack d)) (\<lambda>(vals, st).
              case vals of
                [tos2, tos1, tos] \<Rightarrow> Ok (d\<lparr>stack := st @ [tos, tos2, tos1]\<rparr>, Next None)
              | _ \<Rightarrow> Raise TypeError)
       else Unmodelled)))"

text \<open>\<open>LOAD_NAME\<close> and \<open>LOAD_FAST\<close> push the name object of the table.\<close>

definition h_LOAD_NAME :: "Code \<Rightarrow> handler" where
  "h_LOAD_NAME code d a =
     bind (list_get (names code) (arg a)) (\<lambda>name. Ok (d\<lparr>stack := stack d @ [name]\<rparr>, Next None))"

definition h_LOAD_FAST :: "Code \<Rightarrow> handler" where
  "h_LOAD_FAST code d a =
     bind (list_get (varnames code) (arg a)) (\<lambda>name. Ok (d\<lparr>stack := stack d @ [name]\<rparr>, Next None))"

text \<open>
  \<open>COMPARE_OP\<close>: \<open>left, right = self.stack.pop(2)\<close>, then a \<open>PyCompare\<close> unless the
  operator is 10, the exception match of an \<open>except\<close> clause, which is not embedded.
\<close>

definition h_COMPARE_OP :: handler where
  "h_COMPARE_OP d a =
     bind (st_pop_count 2 (stack d)) (\<lambda>(vals, st).
       case vals of
         [left, right] \<Rightarrow>
           if arg a \<noteq> 10
           then bind (list_get cmp_op (arg a)) (\<lambda>oper.
                  Ok (d\<lparr>stack := st @ [PyCompare left oper right []]\<rparr>, Next None))
           else Unmodelled
       | _ \<Rightarrow> Raise TypeError)"

text \<open>\<open>JUMP_FORWARD\<close>: \<open>return addr.jump()\<close>.\<close>

definition h_JUMP_FORWARD :: "Code \<Rightarrow> handler" where
  "h_JUMP_FORWARD code d a = bind (Address_jump code a) (\<lambda>j. Ok (d, Next j))"

text \<open>
  The handlers below create nested decompilers and run them; \<open>nested\<close> is \<open>d.run()\<close>.
  A nested decompiler shares the operand stack; its suite and its pending branches are
  dropped with it.

  \<open>JUMP_IF_TRUE_OR_POP\<close> (the \<open>or\<close> operator).
\<close>

type_synonym nested_run = "Decompiler \<Rightarrow> (Decompiler \<times> Address option) result"

definition h_JUMP_IF_TRUE_OR_POP :: "Code \<Rightarrow> nested_run \<Rightarrow> handler" where
  "h_JUMP_IF_TRUE_OR_POP code nested d a =
     bind (Address_jump code a) (\<lambda>end_addr1.
     bind (st_pop (stack d)) (\<lambda>(v, st).
     bind (pop_popjump (push_popjump code (popjump_stack d) True end_addr1 v a)) (\<lambda>(left, ps).
     bind (SuiteDecompiler_init code (getitem code (index a + 1)) end_addr1 st) (\<lambda>nd.
     bind (nested nd) (\<lambda>(nd1, stop).
     bind (st_pop (stack nd1)) (\<lambda>(right, st2).
       Ok (d\<lparr>stack := st2 @ [make_bool MkPyBooleanOr left right None], popjump_stack := ps\<rparr>,
           Next end_addr1)))))))"

text \<open>
  \<open>JUMP_IF_FALSE_OR_POP\<close>.  The test that opens the method: the branch closes a link of
  a chained comparison when \<open>DUP_TOP\<close>, \<open>ROT_THREE\<close>, \<open>COMPARE_OP\<close> come right before it.
\<close>

definition after_compare_triplet :: "Code \<Rightarrow> Address \<Rightarrow> bool" where
  "after_compare_triplet code a =
     (case (getitem code (index a + (- 3)), getitem code (index a + (- 2)),
            getitem code (index a + (- 1))) of
        (Some a3, Some a2, Some a1) \<Rightarrow>
          opcode a1 = COMPARE_OP \<and> opcode a2 = ROT_THREE \<and> opcode a3 = DUP_TOP
      | _ \<Rightarrow> False)"

text \<open>
  The test inside the loop, at a \<open>COMPARE_OP\<close> \<open>curaddr\<close>: another link of the same chain
  follows (\<open>DUP_TOP\<close>, \<open>ROT_THREE\<close> before, a \<open>JUMP_IF_FALSE_OR_POP\<close> with the same target
  after).  The \<open>and\<close> stops at the first false operand.
\<close>

definition inner_link :: "Code \<Rightarrow> Address \<Rightarrow> Address \<Rightarrow> bool result" where
  "inner_link code a c =
     bind (opcode_at code c (- 2)) (\<lambda>o2.
       if o2 \<noteq> DUP_TOP then Ok False
       else bind (opcode_at code c (- 1)) (\<lambda>o1.
         if o1 \<noteq> ROT_THREE then Ok False
         else bind (opcode_at code c 1) (\<lambda>n1.
           if n1 \<noteq> JUMP_IF_FALSE_OR_POP then Ok False
           else bind (arg_at code c 1) (\<lambda>a1. Ok (a1 = arg a)))))"

text \<open>
  The loop \<open>while curaddr < end_addr\<close>; it returns \<open>start_addr\<close>, \<open>cond\<close> and the operand
  stack.  \<open>None < end_addr\<close> is a TypeError.  The cursor moves one instruction forward in
  each iteration, so the bound \<open>k\<close> is never reached when it exceeds the number of
  instructions.
\<close>

fun chained_scan ::
  "Code \<Rightarrow> nested_run \<Rightarrow> Address \<Rightarrow> Address option \<Rightarrow> nat \<Rightarrow> Address option
     \<Rightarrow> Address option \<Rightarrow> expr \<Rightarrow> expr list
     \<Rightarrow> (Address option \<times> expr \<times> expr list) result" where
  "chained_scan code nested a end_addr1 0 curaddr start cond st = Timeout"
| "chained_scan code nested a end_addr1 (Suc k) None start cond st = Raise TypeError"
| "chained_scan code nested a end_addr1 (Suc k) (Some c) start cond st =
     (if \<not> Address_lt c end_addr1 then Ok (start, cond, st)
      else
        bind (if opcode c = COMPARE_OP then
                bind (inner_link code a c) (\<lambda>link.
                  if link then
                    bind (SuiteDecompiler_init code start (getitem code (index c + 1)) st) (\<lambda>nd.
                    bind (nested nd) (\<lambda>(nd1, stop).
                    bind (st_pop (stack nd1)) (\<lambda>(cv, st1).
                    bind (lift (chain cond cv)) (\<lambda>cond1.
                      Ok (getitem code (index c + 2), cond1, st1)))))
                  else Ok (start, cond, st))
              else Ok (start, cond, st))
          (\<lambda>(start1, cond1, st1).
             chained_scan code nested a end_addr1 k (getitem code (index c + 1)) start1 cond1 st1))"

definition h_JUMP_IF_FALSE_OR_POP :: "Code \<Rightarrow> nested_run \<Rightarrow> handler" where
  "h_JUMP_IF_FALSE_OR_POP code nested d a =
     bind (Address_jump code a) (\<lambda>end_addr1.
       if after_compare_triplet code a then
         bind (st_pop (stack d)) (\<lambda>(cond, st).
         bind (chained_scan code nested a end_addr1 (Suc (length (instr_seq code)))
                 (getitem code (index a + 1)) (getitem code (index a + 1)) cond st)
           (\<lambda>(start1, cond1, st1).
         bind (case end_addr1 of
                 None \<Rightarrow> Raise TypeError
               | Some e \<Rightarrow> SuiteDecompiler_init code start1 (getitem code (index e + (- 1))) st1)
           (\<lambda>nd.
         bind (nested nd) (\<lambda>(nd1, stop).
         bind (st_pop (stack nd1)) (\<lambda>(cv, st2).
         bind (lift (chain cond1 cv)) (\<lambda>cond2.
           Ok (d\<lparr>stack := st2 @ [cond2]\<rparr>,
               Next (case end_addr1 of None \<Rightarrow> None
                     | Some e \<Rightarrow> getitem code (index e + 2)))))))))
       else
         bind (st_pop (stack d)) (\<lambda>(v, st).
         bind (pop_popjump (push_popjump code (popjump_stack d) False end_addr1 v a))
           (\<lambda>(left, ps).
         bind (SuiteDecompiler_init code (getitem code (index a + 1)) end_addr1 st) (\<lambda>nd.
         bind (nested nd) (\<lambda>(nd1, stop).
         bind (st_pop (stack nd1)) (\<lambda>(right, st2).
           Ok (d\<lparr>stack := st2 @ [make_bool MkPyBooleanAnd left right None],
                 popjump_stack := ps\<rparr>,
               Next end_addr1)))))))"

text \<open>
  The table of handlers, \<open>getattr(self, opname[opcode])\<close>, for the opcodes embedded
  here.  \<open>IMPORT_STAR\<close>, \<open>LIST_APPEND\<close> and \<open>SET_ADD\<close> are \<open>self.POP_TOP(addr)\<close>.  A
  handler that runs nested decompilers gives them one unit of fuel less.
\<close>

primrec handlers :: "nat \<Rightarrow> Code \<Rightarrow> handler" where
  "handlers 0 = (\<lambda>code d a. Timeout)"
| "handlers (Suc n) = (\<lambda>code d a.
     if opcode a = POP_TOP then h_POP_TOP d a
     else if opcode a = IMPORT_STAR \<or> opcode a = LIST_APPEND \<or> opcode a = SET_ADD
       then h_POP_TOP d a
     else if opcode a = PRINT_EXPR then h_PRINT_EXPR d a
     else if opcode a = NOP \<or> opcode a = POP_BLOCK then h_NOP d a
     else if opcode a = DUP_TOP then h_DUP_TOP d a
     else if opcode a = DUP_TOP_TWO then h_DUP_TOP_TWO d a
     else if opcode a = ROT_THREE then h_ROT_THREE code d a
     else if opcode a = LOAD_NAME then h_LOAD_NAME code d a
     else if opcode a = LOAD_FAST then h_LOAD_FAST code d a
     else if opcode a = COMPARE_OP then h_COMPARE_OP d a
     else if opcode a = JUMP_FORWARD then h_JUMP_FORWARD code d a
     else if opcode a = JUMP_IF_TRUE_OR_POP
       then h_JUMP_IF_TRUE_OR_POP code (run_from_start code (handlers n code) n) d a
     else if opcode a = JUMP_IF_FALSE_OR_POP
       then h_JUMP_IF_FALSE_OR_POP code (run_from_start code (handlers n code) n) d a
     else Unmodelled)"

text \<open>\<open>SuiteDecompiler(start, end).run()\<close> with a fresh operand stack.\<close>

definition SuiteDecompiler_run ::
  "nat \<Rightarrow> Code \<Rightarrow> Address option \<Rightarrow> Address option
     \<Rightarrow> (Decompiler \<times> Address option) result" where
  "SuiteDecompiler_run fuel code start endp =
     bind (SuiteDecompiler_init code start endp [])
       (\<lambda>d. run_from_start code (handlers fuel code) fuel d)"

text \<open>A code object with a decoded sequence and a table of names, for examples.\<close>

definition mk_named_code :: "(nat \<times> nat \<times> nat) list \<Rightarrow> string list \<Rightarrow> Code" where
  "mk_named_code instrs ns = \<lparr>instr_seq = instrs, varnames = map PyName ns,
      names = map PyName ns, linemap = [], start_chained_jumps = [],
      inner_chained_jumps = [], end_chained_jumps = []\<rparr>"

subsection \<open>Example code objects\<close>



text \<open>
  The module \<open>if a and b and c: x\<close>, as CPython 3.7 compiles it:
  \<open>LOAD_NAME a; POP_JUMP_IF_FALSE 16; LOAD_NAME b; POP_JUMP_IF_FALSE 16; LOAD_NAME c;
  POP_JUMP_IF_FALSE 16; LOAD_NAME x; POP_TOP; LOAD_CONST None; RETURN_VALUE\<close>.
\<close>

definition if_and_code :: Code where
  "if_and_code = mk_named_code
     [(0, (101, 0)), (2, (114, 16)), (4, (101, 1)), (6, (114, 16)), (8, (101, 2)),
      (10, (114, 16)), (12, (101, 3)), (14, (1, 0)), (16, (100, 0)), (18, (83, 0))]
     [''a'', ''b'', ''c'', ''x'']"

text \<open>
  The module \<open>a and b and c\<close> (an expression statement), as CPython 3.7 compiles it:
  \<open>LOAD_NAME a; JUMP_IF_FALSE_OR_POP 10; LOAD_NAME b; JUMP_IF_FALSE_OR_POP 10;
  LOAD_NAME c; POP_TOP; LOAD_CONST None; RETURN_VALUE\<close>.
\<close>

definition and_expr_code :: Code where
  "and_expr_code = mk_named_code
     [(0, (101, 0)), (2, (111, 10)), (4, (101, 1)), (6, (111, 10)), (8, (101, 2)),
      (10, (1, 0)), (12, (100, 0)), (14, (83, 0))]
     [''a'', ''b'', ''c'']"

text \<open>
  The module \<open>a < b < c\<close> (an expression statement) for the names \<open>n0\<close>, \<open>n1\<close>, \<open>n2\<close> and the
  comparison operators numbered \<open>k1\<close> and \<open>k2\<close>, as CPython 3.7 compiles it:
  \<open>LOAD_NAME n0; LOAD_NAME n1; DUP_TOP; ROT_THREE; COMPARE_OP k1; JUMP_IF_FALSE_OR_POP 18;
  LOAD_NAME n2; COMPARE_OP k2; JUMP_FORWARD 4; ROT_TWO; POP_TOP; POP_TOP; LOAD_CONST None;
  RETURN_VALUE\<close>.
\<close>

definition chain_expr_code :: "string \<Rightarrow> string \<Rightarrow> string \<Rightarrow> nat \<Rightarrow> nat \<Rightarrow> Code" where
  "chain_expr_code n0 n1 n2 k1 k2 = mk_named_code
     [(0, (101, 0)), (2, (101, 1)), (4, (4, 0)), (6, (3, 0)), (8, (107, k1)), (10, (111, 18)),
      (12, (101, 2)), (14, (107, k2)), (16, (110, 4)), (18, (2, 0)), (20, (1, 0)),
      (22, (1, 0)), (24, (100, 0)), (26, (83, 0))]
     [n0, n1, n2]"

text \<open>Reading a result: the rendered condition, and the suite of the decompiler.\<close>

definition map_result_str :: "(expr \<times> popjump list) result \<Rightarrow> string result" where
  "map_result_str r = bind r (\<lambda>(e, ps). Ok (str e))"

definition map_result_suite :: "(Decompiler \<times> Address option) result \<Rightarrow> Suite result" where
  "map_result_suite r = bind r (\<lambda>(d, a). Ok (suite d))"

subsection \<open>Chained comparisons in POP\_JUMP\_IF\<close>

text \<open>
  The part of \<open>POP_JUMP_IF\<close> that builds a chained comparison, right after
  \<open>cond = self.stack.pop()\<close>: a branch listed in \<open>start_chained_jumps\<close> parks its
  comparison on the pending-branch stack and the handler returns; one listed in
  \<open>inner_chained_jumps\<close> chains its comparison onto the parked one, parks the result
  and returns; one listed in \<open>end_chained_jumps\<close> chains its comparison onto the parked
  one and the handler goes on with the result as its condition.  The value is the
  pending-branch stack and, when the handler goes on, the condition it goes on with.
\<close>

definition chained_condition ::
  "Code \<Rightarrow> popjump list \<Rightarrow> bool \<Rightarrow> Address option \<Rightarrow> expr \<Rightarrow> Address
     \<Rightarrow> (popjump list \<times> expr option) result" where
  "chained_condition code ps truthiness jump_addr cond a =
     (if Address_in a (start_chained_jumps code)
        then Ok (push_popjump code ps truthiness jump_addr cond a, None)
      else if Address_in a (inner_chained_jumps code)
        then bind (pop_popjump ps) (\<lambda>(c, ps1).
             bind (lift (chain c cond)) (\<lambda>cond1.
               Ok (push_popjump code ps1 False jump_addr cond1 a, None)))
      else if Address_in a (end_chained_jumps code)
        then bind (pop_popjump ps) (\<lambda>(c, ps1).
             bind (lift (chain c cond)) (\<lambda>cond1. Ok (ps1, Some cond1)))
      else Ok (ps, Some cond))"

section \<open>Properties of the operand stack\<close>

lemma get_count_match: "counts_match s \<Longrightarrow> get_count s x = int (count_list (the_stack s) x)"
  by (simp add: counts_match_def get_count_def)

lemma counts_match_init: "counts_match Stack_init"
  by (simp add: counts_match_def Stack_init_def)

lemma contains_iff: "counts_match s \<Longrightarrow> Stack_contains s x \<longleftrightarrow> x \<in> set (the_stack s)"
  using count_list_0_iff[of "the_stack s" x]
  by (auto simp add: Stack_contains_def get_count_match)

lemma pop1_nonempty:
  assumes "counts_match s" "the_stack s \<noteq> []"
  shows "\<exists>s'. pop1 s = (s', Inr (last (the_stack s))) \<and> the_stack s' = butlast (the_stack s)
           \<and> counts_match s'"
proof -
  obtain ys v where xs: "the_stack s = ys @ [v]"
    using assms(2) by (metis append_butlast_last_id)
  have c: "\<And>x. the_counts s x = (if count_list (ys @ [v]) x = 0 then None
                 else Some (int (count_list (ys @ [v]) x)))"
    using assms(1) xs by (simp add: counts_match_def)
  show ?thesis
    using xs c
    by (auto simp add: pop1_def Let_def set_count_def get_count_def counts_match_def)
qed

lemma pop1_empty: "the_stack s = [] \<Longrightarrow> pop1 s = (s, Inl (Exception ''Empty stack popped!''))"
  by (simp add: pop1_def)

lemma pop1_match: "counts_match s \<Longrightarrow> counts_match (fst (pop1 s))"
  using pop1_nonempty[of s] pop1_empty[of s] by (cases "the_stack s = []") auto

lemma pop1_times_match: "counts_match s \<Longrightarrow> counts_match (fst (pop1_times n s))"
proof (induction n arbitrary: s)
  case 0
  then show ?case by simp
next
  case (Suc n)
  obtain s1 r where p: "pop1 s = (s1, r)" by (cases "pop1 s")
  have m1: "counts_match s1" using pop1_match[OF Suc.prems] p by simp
  show ?case using p m1 Suc.IH[OF m1]
    by (auto split: sum.splits prod.splits)
qed

lemma pop_count_match: "counts_match s \<Longrightarrow> counts_match (fst (pop_count s n))"
  using pop1_times_match[of s "nat n"]
  by (auto simp add: pop_count_def split: prod.splits sum.splits)

lemma push_match:
  "counts_match s \<Longrightarrow> \<exists>s'. push s vals = (s', Inr ()) \<and> the_stack s' = the_stack s @ vals
           \<and> counts_match s'"
proof (induction vals arbitrary: s)
  case Nil
  then show ?case by simp
next
  case (Cons v vals)
  let ?s1 = "s\<lparr>the_counts := (the_counts s)(v \<mapsto> get_count s v + 1), the_stack := the_stack s @ [v]\<rparr>"
  have sc: "set_count s v (get_count s v + 1) = Inr (s\<lparr>the_counts := (the_counts s)(v \<mapsto> get_count s v + 1)\<rparr>)"
    using Cons.prems by (simp add: set_count_def get_count_match)
  have m: "counts_match ?s1"
    using Cons.prems by (auto simp add: counts_match_def get_count_def)
  from Cons.IH[OF m] show ?case using sc by auto
qed

lemma apply_stack_op_match: "counts_match s \<Longrightarrow> counts_match (fst (apply_stack_op s x))"
proof (cases x)
  case (Push vals)
  then show "counts_match s \<Longrightarrow> ?thesis" using push_match[of s vals] by auto
next
  case Pop1
  then show "counts_match s \<Longrightarrow> ?thesis" using pop1_match[of s] by (auto split: prod.splits)
next
  case Pop
  then show "counts_match s \<Longrightarrow> ?thesis" using pop1_match[of s] by (auto simp add: pop_def split: prod.splits)
next
  case (PopCount n)
  then show "counts_match s \<Longrightarrow> ?thesis" using pop_count_match[of s n] by (auto split: prod.splits)
next
  case Peek
  then show "counts_match s \<Longrightarrow> ?thesis" by simp
next
  case (PeekCount n)
  then show "counts_match s \<Longrightarrow> ?thesis" by simp
qed

lemma apply_stack_ops_match: "counts_match s \<Longrightarrow> counts_match (apply_stack_ops s xs)"
proof (induction xs arbitrary: s)
  case Nil
  then show ?case by simp
next
  case (Cons x xs)
  obtain s1 r where p: "apply_stack_op s x = (s1, r)" by (cases "apply_stack_op s x")
  have m1: "counts_match s1" using apply_stack_op_match[OF Cons.prems, of x] p by simp
  show ?case using p m1 Cons.IH[OF m1] by (auto split: sum.splits)
qed

lemma pop1_times_enough:
  "counts_match s \<Longrightarrow> n \<le> length (the_stack s) \<Longrightarrow>
   \<exists>s'. pop1_times n s = (s', Inr (rev (drop (length (the_stack s) - n) (the_stack s))))
        \<and> the_stack s' = take (length (the_stack s) - n) (the_stack s) \<and> counts_match s'"
proof (induction n arbitrary: s)
  case 0
  then show ?case by simp
next
  case (Suc n)
  from Suc.prems(2) have ne: "the_stack s \<noteq> []" by auto
  obtain s1 where p: "pop1 s = (s1, Inr (last (the_stack s)))"
      "the_stack s1 = butlast (the_stack s)" "counts_match s1"
    using pop1_nonempty[OF Suc.prems(1) ne] by blast
  obtain ys v where xs: "the_stack s = ys @ [v]"
    using ne by (metis append_butlast_last_id)
  have n: "n \<le> length (the_stack s1)" using Suc.prems(2) p(2) by simp
  obtain s2 where q: "pop1_times n s1 = (s2, Inr (rev (drop (length (the_stack s1) - n) (the_stack s1))))"
      "the_stack s2 = take (length (the_stack s1) - n) (the_stack s1)" "counts_match s2"
    using Suc.IH[OF p(3) n] by blast
  have l: "length ys - n \<le> length ys" by simp
  show ?case
    using p q n l by (simp add: xs)
qed

lemma pop1_times_short:
  "counts_match s \<Longrightarrow> length (the_stack s) < n \<Longrightarrow>
   \<exists>s'. pop1_times n s = (s', Inl (Exception ''Empty stack popped!''))
        \<and> the_stack s' = [] \<and> counts_match s'"
proof (induction n arbitrary: s)
  case 0
  then show ?case by simp
next
  case (Suc n)
  show ?case
  proof (cases "the_stack s = []")
    case True
    then show ?thesis using Suc.prems(1) by (simp add: pop1_empty)
  next
    case False
    obtain s1 where p: "pop1 s = (s1, Inr (last (the_stack s)))"
        "the_stack s1 = butlast (the_stack s)" "counts_match s1"
      using pop1_nonempty[OF Suc.prems(1) False] by blast
    have n: "length (the_stack s1) < n"
      using Suc.prems(2) p(2) False by (cases "the_stack s") simp_all
    obtain s2 where q: "pop1_times n s1 = (s2, Inl (Exception ''Empty stack popped!''))"
        "the_stack s2 = []" "counts_match s2"
      using Suc.IH[OF p(3) n] by blast
    show ?thesis using p q by simp
  qed
qed

lemma count_list_take_drop:
  "int (count_list (take k xs) x) = int (count_list xs x) - int (count_list (drop k xs) x)"
proof -
  have "count_list (take k xs @ drop k xs) x = count_list (take k xs) x + count_list (drop k xs) x"
    by (rule count_list_append)
  then show ?thesis by simp
qed

text \<open>
  Claim C10.  Starting from an empty \<open>Stack\<close> and after any sequence of \<open>push\<close>,
  \<open>pop1\<close>, \<open>pop\<close> and \<open>peek\<close> calls (run until the first exception), the recorded
  count of every object equals its number of occurrences in the stack.  In such a state
  \<open>push\<close> does not raise, appends its arguments and raises the count of a value by the number
  of times it is pushed; \<open>pop1\<close> and \<open>pop()\<close> on a non-empty stack return the top entry,
  remove it and lower its count by one, leaving every other count unchanged; on an empty
  stack they raise \<open>Exception('Empty stack popped!')\<close> and leave the stack as it was;
  \<open>pop(count)\<close> with at most as many values as the stack holds returns the top \<open>count\<close>
  entries, deepest first, removes them and lowers the count of every value by the number
  of times it was popped; with more it raises the same exception, having emptied the
  stack; it keeps the invariant in both cases; and \<open>val in stack\<close> holds exactly when the
  count of \<open>val\<close> is positive, that is, exactly when \<open>val\<close> occurs in the stack.
\<close>

theorem Stack_counts_invariant:
  fixes ops :: "'a stack_op list"
  defines "s \<equiv> apply_stack_ops Stack_init ops"
  shows "(\<forall>x. get_count s x = int (count_list (the_stack s) x))
       \<and> (\<forall>vals. snd (push s vals) = Inr ()
              \<and> the_stack (fst (push s vals)) = the_stack s @ vals
              \<and> (\<forall>x. get_count (fst (push s vals)) x = get_count s x + int (count_list vals x)))
       \<and> (the_stack s \<noteq> [] \<longrightarrow>
              snd (pop1 s) = Inr (last (the_stack s))
              \<and> the_stack (fst (pop1 s)) = butlast (the_stack s)
              \<and> (\<forall>x. get_count (fst (pop1 s)) x =
                       get_count s x - (if x = last (the_stack s) then 1 else 0)))
       \<and> (the_stack s = [] \<longrightarrow> pop1 s = (s, Inl (Exception ''Empty stack popped!'')))
       \<and> (the_stack s \<noteq> [] \<longrightarrow>
              snd (pop s) = Inr (last (the_stack s))
              \<and> the_stack (fst (pop s)) = butlast (the_stack s)
              \<and> (\<forall>x. get_count (fst (pop s)) x =
                       get_count s x - (if x = last (the_stack s) then 1 else 0)))
       \<and> (the_stack s = [] \<longrightarrow> pop s = (s, Inl (Exception ''Empty stack popped!'')))
       \<and> (\<forall>n. nat n \<le> length (the_stack s) \<longrightarrow>
              snd (pop_count s n) = Inr (drop (length (the_stack s) - nat n) (the_stack s))
              \<and> the_stack (fst (pop_count s n)) = take (length (the_stack s) - nat n) (the_stack s)
              \<and> (\<forall>x. get_count (fst (pop_count s n)) x =
                       get_count s x
                       - int (count_list (drop (length (the_stack s) - nat n) (the_stack s)) x)))
       \<and> (\<forall>n. length (the_stack s) < nat n \<longrightarrow>
              snd (pop_count s n) = Inl (Exception ''Empty stack popped!'')
              \<and> the_stack (fst (pop_count s n)) = []
              \<and> (\<forall>x. get_count (fst (pop_count s n)) x = 0))
       \<and> (\<forall>n. \<forall>x. get_count (fst (pop_count s n)) x =
                       int (count_list (the_stack (fst (pop_count s n))) x))
       \<and> (\<forall>x. Stack_contains s x \<longleftrightarrow> get_count s x > 0)
       \<and> (\<forall>x. Stack_contains s x \<longleftrightarrow> x \<in> set (the_stack s))"
proof -
  have m: "counts_match s"
    unfolding s_def by (rule apply_stack_ops_match[OF counts_match_init])
  have a: "\<forall>x. get_count s x = int (count_list (the_stack s) x)"
    using m by (simp add: get_count_match)
  have b: "\<forall>vals. snd (push s vals) = Inr ()
              \<and> the_stack (fst (push s vals)) = the_stack s @ vals
              \<and> (\<forall>x. get_count (fst (push s vals)) x = get_count s x + int (count_list vals x))"
  proof
    fix vals
    obtain s' where p: "push s vals = (s', Inr ())" "the_stack s' = the_stack s @ vals" "counts_match s'"
      using push_match[OF m, of vals] by blast
    show "snd (push s vals) = Inr ()
              \<and> the_stack (fst (push s vals)) = the_stack s @ vals
              \<and> (\<forall>x. get_count (fst (push s vals)) x = get_count s x + int (count_list vals x))"
      using p m by (simp add: get_count_match)
  qed
  have c: "the_stack s \<noteq> [] \<longrightarrow>
              snd (pop1 s) = Inr (last (the_stack s))
              \<and> the_stack (fst (pop1 s)) = butlast (the_stack s)
              \<and> (\<forall>x. get_count (fst (pop1 s)) x =
                       get_count s x - (if x = last (the_stack s) then 1 else 0))"
  proof
    assume ne: "the_stack s \<noteq> []"
    obtain s' where p: "pop1 s = (s', Inr (last (the_stack s)))"
        "the_stack s' = butlast (the_stack s)" "counts_match s'"
      using pop1_nonempty[OF m ne] by blast
    obtain ys v where xs: "the_stack s = ys @ [v]"
      using ne by (metis append_butlast_last_id)
    have "\<And>x. int (count_list (the_stack s) x) =
        int (count_list (butlast (the_stack s)) x) + (if x = last (the_stack s) then 1 else 0)"
      by (simp add: xs)
    then show "snd (pop1 s) = Inr (last (the_stack s))
              \<and> the_stack (fst (pop1 s)) = butlast (the_stack s)
              \<and> (\<forall>x. get_count (fst (pop1 s)) x =
                       get_count s x - (if x = last (the_stack s) then 1 else 0))"
      using p m by (simp add: get_count_match)
  qed
  have d: "the_stack s = [] \<longrightarrow> pop1 s = (s, Inl (Exception ''Empty stack popped!''))"
    by (simp add: pop1_empty)
  have c': "the_stack s \<noteq> [] \<longrightarrow>
              snd (pop s) = Inr (last (the_stack s))
              \<and> the_stack (fst (pop s)) = butlast (the_stack s)
              \<and> (\<forall>x. get_count (fst (pop s)) x =
                       get_count s x - (if x = last (the_stack s) then 1 else 0))"
    using c unfolding pop_def .
  have d': "the_stack s = [] \<longrightarrow> pop s = (s, Inl (Exception ''Empty stack popped!''))"
    using d unfolding pop_def .
  have h: "\<forall>n. nat n \<le> length (the_stack s) \<longrightarrow>
              snd (pop_count s n) = Inr (drop (length (the_stack s) - nat n) (the_stack s))
              \<and> the_stack (fst (pop_count s n)) = take (length (the_stack s) - nat n) (the_stack s)
              \<and> (\<forall>x. get_count (fst (pop_count s n)) x =
                       get_count s x
                       - int (count_list (drop (length (the_stack s) - nat n) (the_stack s)) x))"
  proof (intro allI impI)
    fix n :: int
    assume le: "nat n \<le> length (the_stack s)"
    obtain s' where p:
        "pop1_times (nat n) s = (s', Inr (rev (drop (length (the_stack s) - nat n) (the_stack s))))"
        "the_stack s' = take (length (the_stack s) - nat n) (the_stack s)" "counts_match s'"
      using pop1_times_enough[OF m le] by blast
    have pc: "pop_count s n = (s', Inr (drop (length (the_stack s) - nat n) (the_stack s)))"
      using p(1) by (simp add: pop_count_def)
    show "snd (pop_count s n) = Inr (drop (length (the_stack s) - nat n) (the_stack s))
              \<and> the_stack (fst (pop_count s n)) = take (length (the_stack s) - nat n) (the_stack s)
              \<and> (\<forall>x. get_count (fst (pop_count s n)) x =
                       get_count s x
                       - int (count_list (drop (length (the_stack s) - nat n) (the_stack s)) x))"
      using pc p(2,3) m by (simp add: get_count_match count_list_take_drop)
  qed
  have i: "\<forall>n. length (the_stack s) < nat n \<longrightarrow>
              snd (pop_count s n) = Inl (Exception ''Empty stack popped!'')
              \<and> the_stack (fst (pop_count s n)) = []
              \<and> (\<forall>x. get_count (fst (pop_count s n)) x = 0)"
  proof (intro allI impI)
    fix n :: int
    assume lt: "length (the_stack s) < nat n"
    obtain s' where p: "pop1_times (nat n) s = (s', Inl (Exception ''Empty stack popped!''))"
        "the_stack s' = []" "counts_match s'"
      using pop1_times_short[OF m lt] by blast
    have pc: "pop_count s n = (s', Inl (Exception ''Empty stack popped!''))"
      using p(1) by (simp add: pop_count_def)
    show "snd (pop_count s n) = Inl (Exception ''Empty stack popped!'')
              \<and> the_stack (fst (pop_count s n)) = []
              \<and> (\<forall>x. get_count (fst (pop_count s n)) x = 0)"
      using pc p(2,3) by (simp add: get_count_match)
  qed
  have e: "\<forall>n. \<forall>x. get_count (fst (pop_count s n)) x =
                       int (count_list (the_stack (fst (pop_count s n))) x)"
    using pop_count_match[OF m] by (simp add: get_count_match)
  have f: "\<forall>x. Stack_contains s x \<longleftrightarrow> get_count s x > 0"
    by (simp add: Stack_contains_def)
  have g: "\<forall>x. Stack_contains s x \<longleftrightarrow> x \<in> set (the_stack s)"
    using m by (simp add: contains_iff)
  show ?thesis using a b c d c' d' h i e f g by (intro conjI) assumption+
qed

theorem Stack_counts_invariant_witness:
  "the_stack (apply_stack_ops Stack_init [Push [1::nat, 2, 1], Pop1]) = [1, 2]
   \<and> get_count (apply_stack_ops Stack_init [Push [1::nat, 2, 1], Pop1]) 1 = 1
   \<and> snd (pop1 (apply_stack_ops Stack_init [Push [1::nat, 2, 1], Pop1])) = Inr 2
   \<and> get_count (fst (pop1 (apply_stack_ops Stack_init [Push [1::nat, 2, 1], Pop1]))) 2 = 0
   \<and> snd (pop (apply_stack_ops Stack_init [Push [1::nat, 2, 1], Pop1])) = Inr 2
   \<and> the_stack (fst (pop (apply_stack_ops Stack_init [Push [1::nat, 2, 1], Pop1]))) = [1]
   \<and> get_count (fst (pop (apply_stack_ops Stack_init [Push [1::nat, 2, 1], Pop1]))) 2 = 0
   \<and> snd (pop_count (apply_stack_ops Stack_init [Push [1::nat, 2, 1], Pop1]) 2) = Inr [1, 2]
   \<and> the_stack (fst (pop_count (apply_stack_ops Stack_init [Push [1::nat, 2, 1], Pop1]) 2)) = []
   \<and> get_count (fst (pop_count (apply_stack_ops Stack_init [Push [1::nat, 2, 1], Pop1]) 2)) 1 = 0
   \<and> snd (pop_count (apply_stack_ops Stack_init [Push [1::nat, 2, 1], Pop1]) 3)
        = Inl (Exception ''Empty stack popped!'')
   \<and> Stack_contains (apply_stack_ops Stack_init [Push [1::nat, 2, 1], Pop1]) 1
   \<and> the_stack (apply_stack_ops Stack_init [Pop1 :: nat stack_op]) = []
   \<and> pop1 (apply_stack_ops Stack_init [Pop1 :: nat stack_op]) =
        (Stack_init, Inl (Exception ''Empty stack popped!''))
   \<and> pop (apply_stack_ops Stack_init [Pop :: nat stack_op]) =
        (Stack_init, Inl (Exception ''Empty stack popped!''))"
proof -
  have s: "the_stack (apply_stack_ops Stack_init [Push [1::nat, 2, 1], Pop1]) = [1, 2]"
    by (simp add: Stack_init_def pop1_def set_count_def get_count_def)
  have e: "apply_stack_ops Stack_init [Pop1 :: nat stack_op] = Stack_init"
    by (simp add: Stack_init_def pop1_def)
  have e': "apply_stack_ops Stack_init [Pop :: nat stack_op] = Stack_init"
    by (simp add: Stack_init_def pop1_def pop_def)
  have e2: "the_stack (Stack_init :: nat Stack) = []"
    by (simp add: Stack_init_def)
  have n2: "nat 2 \<le> length [1::nat, 2]" "length [1::nat, 2] < nat 3" by simp_all
  show ?thesis
    using Stack_counts_invariant [of "[Push [1::nat, 2, 1], Pop1]"]
      Stack_counts_invariant [of "[Pop1 :: nat stack_op]"]
      Stack_counts_invariant [of "[Pop :: nat stack_op]"] s e e' e2
    by simp
qed

section \<open>Properties of the decode pass\<close>









section \<open>Properties of rendering\<close>

lemma replicate_4: "replicate 4 x = [x, x, x, x]"
  by (simp add: eval_nat_numeral)


text \<open>
  Claim C7.  A suite with no statement displays as the one line \<open>pass\<close>, indented to the
  current level, instead of adding nothing; rendered on its own it is the text \<open>pass\<close>.
  An \<open>if\<close> statement whose true suite is empty and which has no else suite displays its
  header and then \<open>pass\<close> one level deeper.
\<close>

theorem empty_suite_displays_pass:
  "Suite_display [] ind =
     ind\<lparr>lines := lines ind @ [replicate (step ind * level ind) CHR '' '' @ ''pass'']\<rparr>
   \<and> lines (Suite_display [] ind) \<noteq> lines ind
   \<and> Suite_str [] = ''pass''
   \<and> lines (display (IfStatement cond [] None) ind False) =
       lines ind @ [replicate (step ind * level ind) CHR '' '' @ ''if '' @ str cond @ '':'',
                    replicate (step ind * (level ind + 1)) CHR '' '' @ ''pass'']
   \<and> Suite_str [IfStatement (PyName ''cond'') [] None] = ''if cond:'' @ [CHR 0x0A] @ ''    pass''"
  by (simp add: indent_def Indent_add_def Suite_str_def IndentString_str_def IndentString_init_def
      replicate_4
      Let_def)

text \<open>
  Claim C6, as the code has it.  The operand of a unary node, the left operand of a
  binary node and the false arm of a ternary node are parenthesized exactly when their
  precedence is less than the node's; the right operand of a binary node and the
  condition and the true arm of a ternary node are parenthesized exactly when their
  precedence is less than or equal to the node's; the index of a subscript is never
  parenthesized.
\<close>

theorem operand_parentheses:
  "str (PyUnaryOp u x) =
     format1 (unary_pattern u) (wrap (str x) (precedence x < precedence (PyUnaryOp u x)))
   \<and> str (PyBinaryOp c l r) =
     format2 (binary_pattern c)
       (wrap (str l) (precedence l < precedence (PyBinaryOp c l r)))
       (wrap (str r) (c \<noteq> PySubscript \<and> precedence r \<le> precedence (PyBinaryOp c l r)))
   \<and> str (PyBooleanAnd l r ac) =
     wrap (str l) (precedence l < precedence (PyBooleanAnd l r ac)) @ '' and '' @
     wrap (str r) (precedence r \<le> precedence (PyBooleanAnd l r ac))
   \<and> str (PyBooleanOr l r ac) =
     wrap (str l) (precedence l < precedence (PyBooleanOr l r ac)) @ '' or '' @
     wrap (str r) (precedence r \<le> precedence (PyBooleanOr l r ac))
   \<and> str (PyIfElse cond t f) =
     wrap (str t) (precedence t \<le> precedence (PyIfElse cond t f)) @ '' if '' @
     wrap (str cond) (precedence cond \<le> precedence (PyIfElse cond t f)) @ '' else '' @
     wrap (str f) (precedence f < precedence (PyIfElse cond t f))"
  by (simp add: wrap_def format2_def)

theorem right_operand_counterexample:
  "str (PyBinaryOp PySubtract (PyName ''a'') (PyBinaryOp PySubtract (PyName ''b'') (PyName ''c'')))
     = ''a - (b - c)''
   \<and> \<not> precedence (PyBinaryOp PySubtract (PyName ''b'') (PyName ''c''))
        < precedence (PyBinaryOp PySubtract (PyName ''a'')
             (PyBinaryOp PySubtract (PyName ''b'') (PyName ''c'')))
   \<and> str (PyIfElse (PyIfElse (PyName ''p'') (PyName ''q'') (PyName ''r'')) (PyName ''x'') (PyName ''y''))
     = ''x if (q if p else r) else y''
   \<and> \<not> precedence (PyIfElse (PyName ''p'') (PyName ''q'') (PyName ''r''))
        < precedence (PyIfElse (PyIfElse (PyName ''p'') (PyName ''q'') (PyName ''r''))
             (PyName ''x'') (PyName ''y''))"
  by (simp add: wrap_def format2_def)

section \<open>Properties of indexing\<close>

text \<open>
  Claim C9.  For every code object and every integer index, \<open>Code.__getitem__\<close> does not
  raise: it returns the \<open>Address\<close> of that index, holding the entry of \<open>instr_seq\<close> at the
  index, when \<open>0 <= index < len(instr_seq)\<close>, and \<open>None\<close> otherwise.  \<open>Address[delta]\<close> is
  \<open>code[index + delta]\<close>, so it returns \<open>None\<close> past either end of the sequence.
\<close>

theorem Code_getitem_total:
  "Code_getitem code i =
     (if 0 \<le> i \<and> i < int (length (instr_seq code))
      then Inr (Some \<lparr>index = i, addr = fst (instr_seq code ! nat i),
                      opcode = fst (snd (instr_seq code ! nat i)),
                      arg = snd (snd (instr_seq code ! nat i))\<rparr>)
      else Inr None)
   \<and> (\<forall>e. Code_getitem code i \<noteq> Inl e)
   \<and> Address_getitem code a delta = Code_getitem code (index a + delta)
   \<and> (\<forall>e. Address_getitem code a delta \<noteq> Inl e)
   \<and> (index a + delta < 0 \<or> index a + delta \<ge> int (length (instr_seq code))
        \<longrightarrow> Address_getitem code a delta = Inr None)"
  by (auto simp add: Code_getitem_def Address_getitem_def Address_init_def Let_def
      split: prod.splits)

theorem Code_getitem_total_witness:
  "Code_getitem \<lparr>instr_seq = [(0, (124, 0)), (2, (83, 0))], varnames = [], names = [],
       linemap = [], start_chained_jumps = [], inner_chained_jumps = [],
       end_chained_jumps = []\<rparr> 1 = Inr (Some \<lparr>index = 1, addr = 2, opcode = 83, arg = 0\<rparr>)
   \<and> (1 + 1 < (0::int) \<or> 1 + 1 \<ge> int (length [(0::nat, (124::nat, 0::nat)), (2, (83, 0))]))
   \<and> Address_getitem \<lparr>instr_seq = [(0, (124, 0)), (2, (83, 0))], varnames = [], names = [],
       linemap = [], start_chained_jumps = [], inner_chained_jumps = [],
       end_chained_jumps = []\<rparr> \<lparr>index = 1, addr = 2, opcode = 83, arg = 0\<rparr> 1 = Inr None
   \<and> Address_getitem \<lparr>instr_seq = [(0, (124, 0)), (2, (83, 0))], varnames = [], names = [],
       linemap = [], start_chained_jumps = [], inner_chained_jumps = [],
       end_chained_jumps = []\<rparr> \<lparr>index = 0, addr = 0, opcode = 124, arg = 0\<rparr> (- 1) = Inr None"
  using Code_getitem_total [of "\<lparr>instr_seq = [(0, (124, 0)), (2, (83, 0))], varnames = [], names = [],
       linemap = [], start_chained_jumps = [], inner_chained_jumps = [],
       end_chained_jumps = []\<rparr>" 1 "\<lparr>index = 1, addr = 2, opcode = 83, arg = 0\<rparr>" 1]
    Code_getitem_total [of "\<lparr>instr_seq = [(0, (124, 0)), (2, (83, 0))], varnames = [], names = [],
       linemap = [], start_chained_jumps = [], inner_chained_jumps = [],
       end_chained_jumps = []\<rparr>" 1 "\<lparr>index = 0, addr = 0, opcode = 124, arg = 0\<rparr>" "- 1"]
  by (simp add: Code_getitem_def Address_getitem_def Address_init_def)

section \<open>Properties of the else-jump pass\<close>

lemma dict_set_values: "set (map snd (dict_set k v d)) \<subseteq> insert v (set (map snd d))"
  by (auto simp add: dict_set_def split: if_splits)

lemma map_of_replace:
  "map_of (map (\<lambda>(k', v'). if k' = k then (k, v) else (k', v')) d) x =
     (if x = k \<and> k \<in> fst ` set d then Some v else map_of d x)"
proof (induction d)
  case Nil
  then show ?case by simp
next
  case (Cons p d)
  obtain k' v' where p: "p = (k', v')" by (cases p)
  show ?case using Cons.IH by (force simp add: p)
qed

lemma map_of_dict_set: "map_of (dict_set k v d) = (map_of d)(k \<mapsto> v)"
proof
  fix x
  show "map_of (dict_set k v d) x = ((map_of d)(k \<mapsto> v)) x"
  proof (cases "k \<in> fst ` set d")
    case True
    then show ?thesis by (simp add: dict_set_def map_of_replace)
  next
    case False
    then have "map_of d k = None" by (simp add: map_of_eq_None_iff)
    with False show ?thesis by (auto simp add: dict_set_def map_add_def split: option.splits)
  qed
qed

lemma map_of_value: "map_of d k = Some v \<Longrightarrow> v \<in> set (map snd d)"
  by (induction d) (auto split: if_splits)

lemma getitem_Some:
  "getitem code i = Some a \<Longrightarrow>
     0 \<le> i \<and> i < int (length (instr_seq code)) \<and> a = Code_iter code ! nat i \<and> index a = i"
  by (auto simp add: getitem_def Code_getitem_def Address_init_def Code_iter_def Let_def
      split: if_splits prod.splits)

lemma Code_iter_nth:
  "j < length (instr_seq code) \<Longrightarrow> index (Code_iter code ! j) = int j"
  by (simp add: Code_iter_def split: prod.splits)

lemma Code_iter_length: "length (Code_iter code) = length (instr_seq code)"
  by (simp add: Code_iter_def)

lemma Code_address_Some:
  "Code_address code x = Inr (Some t) \<Longrightarrow>
     nat (index t) < length (instr_seq code) \<and> t = Code_iter code ! nat (index t) \<and> 0 \<le> index t"
proof -
  assume a: "Code_address code x = Inr (Some t)"
  then obtain i where i: "instr_map code x = Some i" "getitem code (int i) = Some t"
    by (auto simp add: Code_address_def split: option.splits)
  from getitem_Some[OF i(2)] show ?thesis by (simp add: Code_iter_nth)
qed

lemma copy_else_jump_values:
  "set (map snd (copy_else_jump jumps a t)) \<subseteq> set (map snd jumps)"
proof (cases "map_of jumps (index t)")
  case None
  then show ?thesis by (simp add: copy_else_jump_def)
next
  case (Some v)
  then have "v \<in> set (map snd jumps)" by (rule map_of_value)
  then show ?thesis
    using dict_set_values[of "index a" v jumps] Some
    by (auto simp add: copy_else_jump_def)
qed

lemma find_else_step_values:
  assumes "find_else_step code jumps a = Inr jumps'"
    and "a \<in> set (Code_iter code)"
    and "\<forall>v \<in> set (map snd jumps). else_branch code v"
  shows "\<forall>v \<in> set (map snd jumps'). else_branch code v"
proof (cases "opcode a \<in> set pop_jump_if_opcodes")
  case True
  from assms(1) True obtain t where t: "Code_address code (arg a) = Inr (Some t)"
    by (auto simp add: find_else_step_def split: sum.splits option.splits)
  from assms(1) True t obtain prev where p: "getitem code (index t + (- 1)) = Some prev"
    by (auto simp add: find_else_step_def split: sum.splits option.splits)
  show ?thesis
  proof (cases "opcode prev \<in> set else_jump_opcodes \<or> opcode t = FOR_ITER")
    case q: True
    have eb: "else_branch code a"
      using True t p q assms(2) by (auto simp add: else_branch_def lands_on_else_def)
    have j: "jumps' = dict_set (index t) a jumps"
      using assms(1) True t p q by (auto simp add: find_else_step_def)
    show ?thesis
      using dict_set_values[of "index t" a jumps] eb assms(3) unfolding j by blast
  next
    case False
    then have "jumps' = jumps"
      using assms(1) True t p by (auto simp add: find_else_step_def)
    then show ?thesis using assms(3) by simp
  qed
next
  case False
  have "set (map snd jumps') \<subseteq> set (map snd jumps)"
    using assms(1) False copy_else_jump_values[of jumps a]
    by (auto simp add: find_else_step_def split: if_splits sum.splits option.splits)
  then show ?thesis using assms(3) by blast
qed

lemma find_else_loop_values:
  assumes "find_else_loop code as jumps = Inr jumps'"
    and "set as \<subseteq> set (Code_iter code)"
    and "\<forall>v \<in> set (map snd jumps). else_branch code v"
  shows "\<forall>v \<in> set (map snd jumps'). else_branch code v"
  using assms
proof (induction as arbitrary: jumps)
  case Nil
  then show ?case by simp
next
  case (Cons a as)
  from Cons.prems(1) obtain j1 where s: "find_else_step code jumps a = Inr j1"
    and l: "find_else_loop code as j1 = Inr jumps'"
    by (auto split: sum.splits)
  have "\<forall>v \<in> set (map snd j1). else_branch code v"
    using find_else_step_values[OF s] Cons.prems(2,3) by simp
  from Cons.IH[OF l _ this] Cons.prems(2) show ?case by simp
qed

lemma find_else_loop_append:
  "find_else_loop code (xs @ ys) jumps =
     (case find_else_loop code xs jumps of
        Inl e \<Rightarrow> Inl e
      | Inr j \<Rightarrow> find_else_loop code ys j)"
  by (induction xs arbitrary: jumps) (auto split: sum.splits)



lemma copy_else_jump_other:
  "index a \<noteq> k \<Longrightarrow> map_of (copy_else_jump jumps a t) k = map_of jumps k"
  by (simp add: copy_else_jump_def map_of_dict_set split: option.splits)

lemma find_else_step_keeps:
  assumes "find_else_step code jumps a = Inr jumps'" and "\<not> writes_key code a k"
  shows "map_of jumps' k = map_of jumps k"
proof (cases "opcode a \<in> set pop_jump_if_opcodes")
  case True
  from assms(1) True obtain t where t: "Code_address code (arg a) = Inr (Some t)"
    by (auto simp add: find_else_step_def split: sum.splits option.splits)
  then have "index t \<noteq> k" using assms(2) True by (auto simp add: writes_key_def)
  then show ?thesis
    using assms(1) True t
    by (auto simp add: find_else_step_def map_of_dict_set split: option.splits if_splits)
next
  case False
  show ?thesis
  proof (cases "opcode a = JUMP_ABSOLUTE \<or> opcode a = JUMP_FORWARD")
    case j: True
    then have "index a \<noteq> k" using assms(2) by (auto simp add: writes_key_def)
    then show ?thesis
      using assms(1) False j
      by (auto simp add: find_else_step_def copy_else_jump_other
          split: if_splits sum.splits option.splits)
  next
    case n: False
    then show ?thesis using assms(1) False by (auto simp add: find_else_step_def)
  qed
qed

lemma find_else_loop_keeps:
  assumes "find_else_loop code as jumps = Inr jumps'"
    and "\<forall>a \<in> set as. \<not> writes_key code a k"
  shows "map_of jumps' k = map_of jumps k"
  using assms
proof (induction as arbitrary: jumps)
  case Nil
  then show ?case by simp
next
  case (Cons a as)
  from Cons.prems(1) obtain j1 where s: "find_else_step code jumps a = Inr j1"
    and l: "find_else_loop code as j1 = Inr jumps'"
    by (auto split: sum.splits)
  have "map_of j1 k = map_of jumps k"
    using find_else_step_keeps[OF s] Cons.prems(2) by simp
  moreover have "map_of jumps' k = map_of j1 k"
    using Cons.IH[OF l] Cons.prems(2) by simp
  ultimately show ?case by simp
qed

lemma find_else_step_sets:
  assumes "find_else_step code jumps a = Inr jumps'"
    and "opcode a \<in> set pop_jump_if_opcodes" and "lands_on_else code a t"
  shows "map_of jumps' (index t) = Some a"
  using assms
  by (auto simp add: find_else_step_def lands_on_else_def map_of_dict_set
      split: option.splits if_splits)

text \<open>
  Claim C8, as the code has it.  \<open>find_else\<close> keeps a table from landing instructions to
  branches.  A conditional branch (\<open>POP_JUMP_IF_TRUE\<close>, \<open>POP_JUMP_IF_FALSE\<close>) whose target
  lands immediately after an instruction of \<open>else_jump_opcodes\<close> (\<open>JUMP_FORWARD\<close>,
  \<open>RETURN_VALUE\<close>, \<open>JUMP_ABSOLUTE\<close>, \<open>SETUP_LOOP\<close>, \<open>RAISE_VARARGS\<close>, \<open>POP_TOP\<close>) or on a
  \<open>FOR_ITER\<close> replaces the entry of its landing instruction, and the else-jump set is the
  set of the branches left in the table.  So every member of the set is such a branch of
  the code object; and such a branch is in the set when no later instruction assigns the
  entry of its landing instruction, that is, when no later conditional branch has the same
  target and the landing instruction is not a later unconditional jump.
\<close>

theorem find_else_else_jumps:
  assumes "find_else code = Inr S"
  shows "(\<forall>v \<in> S. else_branch code v)
       \<and> (\<forall>i t. i < length (instr_seq code)
             \<and> opcode (Code_iter code ! i) \<in> set pop_jump_if_opcodes
             \<and> lands_on_else code (Code_iter code ! i) t
             \<and> (\<forall>j. i < j \<and> j < length (instr_seq code)
                     \<longrightarrow> \<not> writes_key code (Code_iter code ! j) (index t))
             \<longrightarrow> Code_iter code ! i \<in> S)"
proof -
  from assms obtain jumps where l: "find_else_loop code (Code_iter code) [] = Inr jumps"
    and S: "S = set (map snd jumps)"
    by (auto simp add: find_else_def split: sum.splits)
  have sound: "\<forall>v \<in> S. else_branch code v"
    using find_else_loop_values[OF l] unfolding S by simp
  have complete: "Code_iter code ! i \<in> S"
    if i: "i < length (instr_seq code)"
      and op: "opcode (Code_iter code ! i) \<in> set pop_jump_if_opcodes"
      and t: "lands_on_else code (Code_iter code ! i) t"
      and later: "\<forall>j. i < j \<and> j < length (instr_seq code)
                     \<longrightarrow> \<not> writes_key code (Code_iter code ! j) (index t)"
    for i t
  proof -
    let ?xs = "Code_iter code"
    have len: "i < length ?xs" using i by (simp add: Code_iter_length)
    have split: "?xs = take i ?xs @ [?xs ! i] @ drop (Suc i) ?xs"
      using len by (simp add: Cons_nth_drop_Suc)
    from l obtain j0 where l0: "find_else_loop code (take i ?xs) [] = Inr j0"
      and l1: "find_else_loop code ([?xs ! i] @ drop (Suc i) ?xs) j0 = Inr jumps"
      using find_else_loop_append[of code "take i ?xs" "[?xs ! i] @ drop (Suc i) ?xs" "[]"] split
      by (auto split: sum.splits)
    from l1 obtain j1 where s: "find_else_step code j0 (?xs ! i) = Inr j1"
      and l2: "find_else_loop code (drop (Suc i) ?xs) j1 = Inr jumps"
      by (auto split: sum.splits)
    have set1: "map_of j1 (index t) = Some (?xs ! i)"
      by (rule find_else_step_sets[OF s op t])
    have nw: "\<forall>a \<in> set (drop (Suc i) ?xs). \<not> writes_key code a (index t)"
    proof
      fix a assume "a \<in> set (drop (Suc i) ?xs)"
      then obtain m where m: "m < length (drop (Suc i) ?xs)" "a = drop (Suc i) ?xs ! m"
        by (auto simp add: in_set_conv_nth)
      then have "a = ?xs ! (Suc i + m)" "Suc i + m < length (instr_seq code)"
        by (simp_all add: Code_iter_length)
      then show "\<not> writes_key code a (index t)" using later by simp
    qed
    have "map_of jumps (index t) = Some (?xs ! i)"
      using find_else_loop_keeps[OF l2 nw] set1 by simp
    then show ?thesis unfolding S by (rule map_of_value)
  qed
  show ?thesis using sound complete by blast
qed

theorem find_else_else_jumps_witness:
  "find_else (mk_code [(0, (124, 0)), (2, (114, 12)), (4, (124, 1)), (6, (114, 12)),
                 (8, (100, 1)), (10, (83, 0)), (12, (100, 2)), (14, (83, 0))])
     = Inr {\<lparr>index = 3, addr = 6, opcode = 114, arg = 12\<rparr>}
   \<and> else_branch (mk_code [(0, (124, 0)), (2, (114, 12)), (4, (124, 1)), (6, (114, 12)),
                 (8, (100, 1)), (10, (83, 0)), (12, (100, 2)), (14, (83, 0))])
        \<lparr>index = 3, addr = 6, opcode = 114, arg = 12\<rparr>"
proof -
  let ?c = "mk_code [(0, (124, 0)), (2, (114, 12)), (4, (124, 1)), (6, (114, 12)),
                 (8, (100, 1)), (10, (83, 0)), (12, (100, 2)), (14, (83, 0))]"
  have f: "find_else ?c = Inr {\<lparr>index = 3, addr = 6, opcode = 114, arg = 12\<rparr>}"
    by code_simp
  from find_else_else_jumps[OF f] show ?thesis using f by simp
qed

theorem find_else_counterexample:
  "find_else (mk_code [(0, (124, 0)), (2, (114, 12)), (4, (124, 1)), (6, (114, 12)),
                 (8, (100, 1)), (10, (83, 0)), (12, (100, 2)), (14, (83, 0))])
     = Inr {\<lparr>index = 3, addr = 6, opcode = 114, arg = 12\<rparr>}
   \<and> Code_iter (mk_code [(0, (124, 0)), (2, (114, 12)), (4, (124, 1)), (6, (114, 12)),
                 (8, (100, 1)), (10, (83, 0)), (12, (100, 2)), (14, (83, 0))]) ! 1
     = \<lparr>index = 1, addr = 2, opcode = POP_JUMP_IF_FALSE, arg = 12\<rparr>
   \<and> Code_address (mk_code [(0, (124, 0)), (2, (114, 12)), (4, (124, 1)), (6, (114, 12)),
                 (8, (100, 1)), (10, (83, 0)), (12, (100, 2)), (14, (83, 0))]) 12
     = Inr (Some \<lparr>index = 6, addr = 12, opcode = 100, arg = 2\<rparr>)
   \<and> getitem (mk_code [(0, (124, 0)), (2, (114, 12)), (4, (124, 1)), (6, (114, 12)),
                 (8, (100, 1)), (10, (83, 0)), (12, (100, 2)), (14, (83, 0))]) 5
     = Some \<lparr>index = 5, addr = 10, opcode = RETURN_VALUE, arg = 0\<rparr>
   \<and> \<lparr>index = 1, addr = 2, opcode = POP_JUMP_IF_FALSE, arg = 12\<rparr>
       \<notin> {\<lparr>index = 3, addr = 6, opcode = 114, arg = 12\<rparr>}
   \<and> find_else (mk_code [(0, (101, 0)), (2, (114, 10)), (4, (101, 1)), (6, (131, 0)),
                 (8, (1, 0)), (10, (100, 0)), (12, (90, 1)), (14, (100, 1)), (16, (83, 0))])
     = Inr {\<lparr>index = 1, addr = 2, opcode = POP_JUMP_IF_FALSE, arg = 10\<rparr>}
   \<and> Code_address (mk_code [(0, (101, 0)), (2, (114, 10)), (4, (101, 1)), (6, (131, 0)),
                 (8, (1, 0)), (10, (100, 0)), (12, (90, 1)), (14, (100, 1)), (16, (83, 0))]) 10
     = Inr (Some \<lparr>index = 5, addr = 10, opcode = 100, arg = 0\<rparr>)
   \<and> getitem (mk_code [(0, (101, 0)), (2, (114, 10)), (4, (101, 1)), (6, (131, 0)),
                 (8, (1, 0)), (10, (100, 0)), (12, (90, 1)), (14, (100, 1)), (16, (83, 0))]) 4
     = Some \<lparr>index = 4, addr = 8, opcode = POP_TOP, arg = 0\<rparr>
   \<and> POP_TOP \<notin> {JUMP_FORWARD, JUMP_ABSOLUTE, RETURN_VALUE, RAISE_VARARGS}
   \<and> (100::nat) \<noteq> FOR_ITER"
  by code_simp

section \<open>Properties of the execution loop\<close>

lemma bind_simps:
  "bind (Ok x) f = f x" "bind (Raise e) f = Raise e" "bind Timeout f = Timeout"
  "bind Unmodelled f = Unmodelled"
  by (simp_all add: bind_def)

lemma lift_simps: "lift (Inr x) = Ok x" "lift (Inl e) = Raise e"
  by (simp_all add: lift_def)



lemma run_dispatch:
  "\<not> leaves_loop code d a \<Longrightarrow>
   run code method (Suc n) d (Some a) =
     (case method d a of
        Raise e \<Rightarrow> Raise e
      | Timeout \<Rightarrow> Timeout
      | Unmodelled \<Rightarrow> Unmodelled
      | Ok (d1, END_NOW) \<Rightarrow> Ok (d1, end_addr d1)
      | Ok (d1, Next r) \<Rightarrow>
          (let new_addr = (case r of None \<Rightarrow> getitem code (index a + 1) | Some x \<Rightarrow> Some x)
           in if (scan_for_else d1 \<or> find_end_finally d1) \<and> opcode a = RETURN_VALUE
              then Ok (d1, Some a)
              else if expression_in_result d1 then
                (case new_addr of
                   None \<Rightarrow> Raise AttributeError
                 | Some na \<Rightarrow>
                     if opcode na = RETURN_VALUE then Ok (d1, new_addr)
                     else run code method n d1 new_addr)
              else run code method n d1 new_addr))"
  by (auto simp add: leaves_loop_def)













text \<open>
  Claim C5, as the code has it.  On an empty operand stack the handler of \<open>POP_TOP\<close>, and
  those of \<open>IMPORT_STAR\<close>, \<open>LIST_APPEND\<close> and \<open>SET_ADD\<close>, which call it, do not raise: they
  append the diagnostic statement to the suite and return, and \<open>run\<close> goes on with the
  next instruction, the suite built so far kept.  The handlers of \<open>PRINT_EXPR\<close>,
  \<open>COMPARE_OP\<close>, \<open>JUMP_IF_TRUE_OR_POP\<close> and \<open>JUMP_IF_FALSE_OR_POP\<close> raise
  \<open>Exception('Empty stack popped!')\<close> there (the two jumps once \<open>addr.jump()\<close> has
  returned), that of \<open>DUP_TOP\<close> raises \<open>IndexError\<close>, and that of \<open>DUP_TOP_TWO\<close> pushes
  nothing and returns.  An exception raised by a handler leaves \<open>run\<close> as it is.
\<close>

theorem pop_top_underflow_diagnosed:
  assumes "stack d = []"
  shows "(opcode a \<in> {POP_TOP, IMPORT_STAR, LIST_APPEND, SET_ADD} \<longrightarrow>
            handlers (Suc n) code d a =
              Ok (d\<lparr>suite := suite d @ [SimpleStatement POP_TOP_error]\<rparr>, Next None)
            \<and> (\<not> leaves_loop code d a \<and> \<not> expression_in_result d \<longrightarrow>
                 run code (handlers (Suc n) code) (Suc k) d (Some a) =
                 run code (handlers (Suc n) code) k
                   (d\<lparr>suite := suite d @ [SimpleStatement POP_TOP_error]\<rparr>)
                   (getitem code (index a + 1))))
       \<and> (opcode a \<in> {PRINT_EXPR, COMPARE_OP} \<longrightarrow>
            handlers (Suc n) code d a = Raise (Exception ''Empty stack popped!''))
       \<and> (opcode a \<in> {JUMP_IF_TRUE_OR_POP, JUMP_IF_FALSE_OR_POP}
            \<and> (\<exists>j. Address_jump code a = Ok j) \<longrightarrow>
            handlers (Suc n) code d a = Raise (Exception ''Empty stack popped!''))
       \<and> (opcode a = DUP_TOP \<longrightarrow> handlers (Suc n) code d a = Raise IndexError)
       \<and> (opcode a = DUP_TOP_TWO \<longrightarrow> handlers (Suc n) code d a = Ok (d, Next None))
       \<and> (\<forall>e. \<not> leaves_loop code d a \<and> handlers (Suc n) code d a = Raise e \<longrightarrow>
            run code (handlers (Suc n) code) (Suc k) d (Some a) = Raise e)"
proof -
  let ?d1 = "d\<lparr>suite := suite d @ [SimpleStatement POP_TOP_error]\<rparr>"
  have p: "opcode a \<in> {POP_TOP, IMPORT_STAR, LIST_APPEND, SET_ADD} \<Longrightarrow>
           handlers (Suc n) code d a = Ok (?d1, Next None)"
    using assms by (auto simp add: h_POP_TOP_def opcode_defs)
  have pr: "run code (handlers (Suc n) code) (Suc k) d (Some a) =
            run code (handlers (Suc n) code) k ?d1 (getitem code (index a + 1))"
    if "opcode a \<in> {POP_TOP, IMPORT_STAR, LIST_APPEND, SET_ADD}"
      and nl: "\<not> leaves_loop code d a" and "\<not> expression_in_result d"
  proof -
    have "opcode a \<noteq> RETURN_VALUE" using that(1) by (auto simp add: opcode_defs)
    then show ?thesis
      unfolding run_dispatch[OF nl] p[OF that(1)] using that(3) by (simp add: Let_def)
  qed
  have a: "opcode a \<in> {POP_TOP, IMPORT_STAR, LIST_APPEND, SET_ADD} \<longrightarrow>
            handlers (Suc n) code d a = Ok (?d1, Next None)
            \<and> (\<not> leaves_loop code d a \<and> \<not> expression_in_result d \<longrightarrow>
                 run code (handlers (Suc n) code) (Suc k) d (Some a) =
                 run code (handlers (Suc n) code) k ?d1 (getitem code (index a + 1)))"
    using p pr by blast
  have b: "opcode a \<in> {PRINT_EXPR, COMPARE_OP} \<longrightarrow>
            handlers (Suc n) code d a = Raise (Exception ''Empty stack popped!'')"
    using assms
    by (auto simp add: h_PRINT_EXPR_def h_COMPARE_OP_def st_pop_def bind_simps opcode_defs
        eval_nat_numeral)
  have c: "opcode a \<in> {JUMP_IF_TRUE_OR_POP, JUMP_IF_FALSE_OR_POP}
            \<and> (\<exists>j. Address_jump code a = Ok j) \<longrightarrow>
            handlers (Suc n) code d a = Raise (Exception ''Empty stack popped!'')"
    using assms
    by (auto simp add: h_JUMP_IF_TRUE_OR_POP_def h_JUMP_IF_FALSE_OR_POP_def st_pop_def
        bind_simps opcode_defs)
  have e: "opcode a = DUP_TOP \<longrightarrow> handlers (Suc n) code d a = Raise IndexError"
    using assms by (auto simp add: h_DUP_TOP_def st_peek_def bind_simps opcode_defs)
  have f: "opcode a = DUP_TOP_TWO \<longrightarrow> handlers (Suc n) code d a = Ok (d, Next None)"
    using assms by (auto simp add: h_DUP_TOP_TWO_def opcode_defs)
  have g: "\<forall>e. \<not> leaves_loop code d a \<and> handlers (Suc n) code d a = Raise e \<longrightarrow>
            run code (handlers (Suc n) code) (Suc k) d (Some a) = Raise e"
  proof (intro allI impI)
    fix e
    assume h: "\<not> leaves_loop code d a \<and> handlers (Suc n) code d a = Raise e"
    then have nl: "\<not> leaves_loop code d a" by simp
    show "run code (handlers (Suc n) code) (Suc k) d (Some a) = Raise e"
      unfolding run_dispatch[OF nl] using h by simp
  qed
  show ?thesis using a b c e f g by (intro conjI) assumption+
qed

theorem pop_top_underflow_diagnosed_witness:
  "SuiteDecompiler_run 5 (mk_named_code [(0, (1, 0)), (2, (101, 0)), (4, (1, 0))] [''a''])
        (getitem (mk_named_code [(0, (1, 0)), (2, (101, 0)), (4, (1, 0))] [''a'']) 0) None
      = Ok (\<lparr>start_addr = \<lparr>index = 0, addr = 0, opcode = 1, arg = 0\<rparr>, end_addr = None,
              stack = [], suite = [SimpleStatement POP_TOP_error, SimpleStatement ''a''],
              popjump_stack = [], scan_for_else = False, find_end_finally = False,
              expression_in_result = False,
              end_block = Some \<lparr>index = 2, addr = 4, opcode = 1, arg = 0\<rparr>\<rparr>, None)
   \<and> SuiteDecompiler_run 5 (mk_named_code [(0, (4, 0)), (2, (1, 0))] [])
        (getitem (mk_named_code [(0, (4, 0)), (2, (1, 0))] []) 0) None
      = Raise IndexError"
proof -
  let ?c = "mk_named_code [(0, (1, 0)), (2, (101, 0)), (4, (1, 0))] [''a'']"
  let ?a = "\<lparr>index = 0, addr = 0, opcode = 1, arg = 0\<rparr>"
  let ?d = "\<lparr>start_addr = ?a, end_addr = None,
              stack = [], suite = [],
              popjump_stack = [], scan_for_else = False, find_end_finally = False,
              expression_in_result = False,
              end_block = Some \<lparr>index = 2, addr = 4, opcode = 1, arg = 0\<rparr>\<rparr>"
  let ?c2 = "mk_named_code [(0, (4, 0)), (2, (1, 0))] []"
  let ?a2 = "\<lparr>index = 0, addr = 0, opcode = 4, arg = 0\<rparr>"
  let ?d2 = "\<lparr>start_addr = ?a2, end_addr = None,
              stack = [], suite = [],
              popjump_stack = [], scan_for_else = False, find_end_finally = False,
              expression_in_result = False,
              end_block = Some \<lparr>index = 1, addr = 2, opcode = 1, arg = 0\<rparr>\<rparr>"
  have o: "opcode ?a \<in> {POP_TOP, IMPORT_STAR, LIST_APPEND, SET_ADD}" "opcode ?a2 = DUP_TOP"
    by (simp_all add: opcode_defs)
  have s: "stack ?d = []" "stack ?d2 = []" by simp_all
  have nl: "\<not> leaves_loop ?c ?d ?a" "\<not> leaves_loop ?c2 ?d2 ?a2" "\<not> expression_in_result ?d"
    by (simp_all add: leaves_loop_def Address_lt_def)
  have i: "SuiteDecompiler_init ?c (getitem ?c 0) None [] = Ok ?d"
    "SuiteDecompiler_init ?c2 (getitem ?c2 0) None [] = Ok ?d2"
    by code_simp+
  have rest: "run ?c (handlers 5 ?c) 4 (?d\<lparr>suite := suite ?d @ [SimpleStatement POP_TOP_error]\<rparr>)
                (getitem ?c (index ?a + 1))
      = Ok (\<lparr>start_addr = ?a, end_addr = None,
              stack = [], suite = [SimpleStatement POP_TOP_error, SimpleStatement ''a''],
              popjump_stack = [], scan_for_else = False, find_end_finally = False,
              expression_in_result = False,
              end_block = Some \<lparr>index = 2, addr = 4, opcode = 1, arg = 0\<rparr>\<rparr>, None)"
    by code_simp
  have five: "(5::nat) = Suc 4" by simp
  have t1: "run ?c (handlers 5 ?c) 5 ?d (Some ?a) =
        run ?c (handlers 5 ?c) 4 (?d\<lparr>suite := suite ?d @ [SimpleStatement POP_TOP_error]\<rparr>)
                (getitem ?c (index ?a + 1))"
    using pop_top_underflow_diagnosed[OF s(1), of ?a 4 ?c 4] o(1) nl(1,3)
    unfolding five[symmetric] by blast
  have t2: "run ?c2 (handlers 5 ?c2) 5 ?d2 (Some ?a2) = Raise IndexError"
    using pop_top_underflow_diagnosed[OF s(2), of ?a2 4 ?c2 4] o(2) nl(2)
    unfolding five[symmetric] by blast
  show ?thesis
    using t1 t2 i rest
    by (simp add: SuiteDecompiler_run_def bind_simps run_from_start_def
        del: handlers.simps run.simps)
qed

text \<open>
  Against claim C5 as stated: an underflow in \<open>COMPARE_OP\<close> (\<open>Stack.pop1\<close>) or in \<open>DUP_TOP\<close>
  (\<open>peek\<close>) leaves \<open>run\<close> as an exception, and the suite built so far is not returned.
\<close>

theorem underflow_counterexample:
  "SuiteDecompiler_run 5 (mk_named_code [(0, (101, 0)), (2, (107, 0)), (4, (1, 0))] [''a''])
        (getitem (mk_named_code [(0, (101, 0)), (2, (107, 0)), (4, (1, 0))] [''a'']) 0) None
     = Raise (Exception ''Empty stack popped!'')
   \<and> SuiteDecompiler_run 5 (mk_named_code [(0, (101, 0)), (2, (1, 0)), (4, (4, 0))] [''a''])
        (getitem (mk_named_code [(0, (101, 0)), (2, (1, 0)), (4, (4, 0))] [''a'']) 0) None
     = Raise IndexError"
  by code_simp

section \<open>Properties of boolean folding\<close>

text \<open>
  The merge of \<open>push_popjump\<close>: a clause \<open>jcond\<close> that is already a node of the operator
  being built is flattened to the left, and the result renders without parentheses
  around the pair.
\<close>

lemma merge_clause_flattens:
  "merge_clause MkPyBooleanAnd cond (PyBooleanAnd b c ac1) ac =
     PyBooleanAnd (PyBooleanAnd cond b ac) c ac
   \<and> merge_clause MkPyBooleanOr cond (PyBooleanOr b c ac1) ac =
     PyBooleanOr (PyBooleanOr cond b ac) c ac
   \<and> str (merge_clause MkPyBooleanAnd cond (PyBooleanAnd b c ac1) ac) =
     wrap (str cond) (precedence cond < 4) @ '' and '' @ wrap (str b) (precedence b \<le> 4)
       @ '' and '' @ wrap (str c) (precedence c \<le> 4)
   \<and> str (merge_clause MkPyBooleanOr cond (PyBooleanOr b c ac1) ac) =
     wrap (str cond) (precedence cond < 3) @ '' or '' @ wrap (str b) (precedence b \<le> 3)
       @ '' or '' @ wrap (str c) (precedence c \<le> 3)"
  by (simp add: merge_clause_def format2_def wrap_def)

text \<open>
  Claim C3 on the code.  The three pending branches of \<open>if a and b and c\<close> (three
  \<open>POP_JUMP_IF_FALSE\<close> to one target), folded by \<open>push_popjump\<close>, give the condition
  \<open>a and b and c\<close>, and so does a clause \<open>b and c\<close> merged after \<open>a\<close>.  But the expression
  \<open>a and b and c\<close>, which compiles to \<open>JUMP_IF_FALSE_OR_POP\<close> instructions, is not folded
  there: the handler builds \<open>PyBooleanAnd(left, right)\<close> with the rest of the chain as
  its right operand, and the statement renders as \<open>a and (b and c)\<close>.
\<close>

theorem and_chain_rendering:
  "map_result_str
     (pop_popjump
       (push_popjump if_and_code
         (push_popjump if_and_code
           (push_popjump if_and_code [] False (getitem if_and_code 8) (PyName ''a'')
              \<lparr>index = 1, addr = 2, opcode = 114, arg = 16\<rparr>)
           False (getitem if_and_code 8) (PyName ''b'')
           \<lparr>index = 3, addr = 6, opcode = 114, arg = 16\<rparr>)
         False (getitem if_and_code 8) (PyName ''c'')
         \<lparr>index = 5, addr = 10, opcode = 114, arg = 16\<rparr>))
     = Ok ''a and b and c''
   \<and> map_result_str
     (pop_popjump
       (push_popjump if_and_code
         (push_popjump if_and_code [] False (getitem if_and_code 8) (PyName ''a'')
            \<lparr>index = 1, addr = 2, opcode = 114, arg = 16\<rparr>)
         False (getitem if_and_code 8) (PyBooleanAnd (PyName ''b'') (PyName ''c'') False)
         \<lparr>index = 5, addr = 10, opcode = 114, arg = 16\<rparr>))
     = Ok ''a and b and c''
   \<and> map_result_suite
       (SuiteDecompiler_run 5 and_expr_code (getitem and_expr_code 0) (getitem and_expr_code 6))
     = Ok [SimpleStatement ''a and (b and c)'']"
  by code_simp

section \<open>Properties of chained comparisons\<close>

text \<open>
  \<open>PyCompare.chain\<close> returns a \<open>PyCompare\<close> node whenever it returns, and chaining two
  plain comparisons gives the node that renders as \<open>x o1 y o2 z\<close>.
\<close>

lemma chain_is_compare:
  "chain x y = Inr z \<Longrightarrow> \<exists>l oper rt rest. z = PyCompare l oper rt rest"
  by (cases x; cases y) auto

lemma chain_renders:
  "chain (PyCompare x o1 y []) (PyCompare y2 o2 z []) = Inr (PyCompare x o1 y [(o2, z)])
   \<and> str (PyCompare x o1 y [(o2, z)]) =
       wrap (str x) (precedence x \<le> 6) @ '' '' @ o1 @ '' '' @ wrap (str y) (precedence y \<le> 6)
         @ '' '' @ o2 @ '' '' @ wrap (str z) (precedence z \<le> 6)"
  by simp

text \<open>
  In expression position: whenever \<open>JUMP_IF_FALSE_OR_POP\<close> comes right after \<open>DUP_TOP\<close>,
  \<open>ROT_THREE\<close>, \<open>COMPARE_OP\<close> and its handler returns, the value it leaves on top of the
  operand stack is one \<open>PyCompare\<close> node.
\<close>

lemma bind_Ok: "bind m f = Ok y \<Longrightarrow> \<exists>x. m = Ok x \<and> f x = Ok y"
  by (cases m) (simp_all add: bind_def)

lemma chained_path_pushes_compare:
  assumes t: "after_compare_triplet code a"
    and r: "h_JUMP_IF_FALSE_OR_POP code nested d a = Ok (d1, r)"
  shows "stack d1 \<noteq> [] \<and> (\<exists>l oper rt rest. last (stack d1) = PyCompare l oper rt rest)"
proof -
  from r t obtain cond1 cv st2 cond2 where
    c: "lift (chain cond1 cv) = Ok cond2" and d1: "d1 = d\<lparr>stack := st2 @ [cond2]\<rparr>"
    unfolding h_JUMP_IF_FALSE_OR_POP_def by (auto dest!: bind_Ok)
  from c have "chain cond1 cv = Inr cond2" by (cases "chain cond1 cv") (simp_all add: lift_def)
  from chain_is_compare[OF this] show ?thesis using d1 by auto
qed

text \<open>
  The module \<open>a < b <= c\<close>, as CPython 3.7 compiles it, decompiles to the statement
  \<open>a < b <= c\<close>.
\<close>

lemma chain_expr_scenario:
  "map_result_suite
     (SuiteDecompiler_run 8 (chain_expr_code ''a'' ''b'' ''c'' 0 1)
        (getitem (chain_expr_code ''a'' ''b'' ''c'' 0 1) 0)
        (getitem (chain_expr_code ''a'' ''b'' ''c'' 0 1) 12))
   = Ok [SimpleStatement ''a < b <= c'']"
  by code_simp

text \<open>
  In statement position, for the branches that \<open>proc_chained\<close> has listed: the first
  branch of a chain parks its comparison, and the last one chains its own comparison
  onto it, so that \<open>POP_JUMP_IF\<close> goes on with one \<open>PyCompare\<close> node as its condition.
\<close>

lemma statement_chain:
  assumes "Address_in a_s (start_chained_jumps code)"
    and "opcode a_s \<noteq> JUMP_IF_TRUE_OR_POP"
    and "\<not> Address_in a_e (start_chained_jumps code)"
    and "\<not> Address_in a_e (inner_chained_jumps code)"
    and "Address_in a_e (end_chained_jumps code)"
  shows "chained_condition code [] False j (PyCompare x o1 y []) a_s
           = Ok ([(False, j, PyCompare x o1 y [], a_s)], None)
       \<and> chained_condition code [(False, j, PyCompare x o1 y [], a_s)] t j2
             (PyCompare y2 o2 z []) a_e
           = Ok ([], Some (PyCompare x o1 y [(o2, z)]))"
  using assms
  by (simp add: chained_condition_def push_popjump_def pop_popjump_def bind_simps lift_simps
      Let_def)

end
